theory Spec2Isabelle
  imports Complex_Main "HOL-Library.AList"
begin

section \<open>Python values, exceptions and the document store\<close>

text \<open>
  The values that travel through \<^verbatim>\<open>api/views.py\<close>: what \<^verbatim>\<open>json.loads\<close> returns and
  what a Firestore document holds. A dictionary is an association list read with
  \<^const>\<open>map_of\<close>.
\<close>

datatype pyval =
    PNone
  | PBool bool
  | PInt int
  | PFloat rat
  | PStr string
  | PList "pyval list"
  | PDict "(string \<times> pyval) list"

datatype exn =
    TypeError
  | NameError string
  | AttributeError
  | IndexError
  | KeyError
  | ValueError
  | UnicodeDecodeError

type_synonym doc = "(string \<times> pyval) list"

text \<open>Python truthiness, as used by \<^verbatim>\<open>if x\<close>, \<^verbatim>\<open>not x\<close> and \<^verbatim>\<open>x or y\<close>.\<close>

fun truthy :: "pyval \<Rightarrow> bool" where
  "truthy PNone = False"
| "truthy (PBool b) = b"
| "truthy (PInt i) = (i \<noteq> 0)"
| "truthy (PFloat x) = (x \<noteq> 0)"
| "truthy (PStr s) = (s \<noteq> [])"
| "truthy (PList xs) = (xs \<noteq> [])"
| "truthy (PDict kvs) = (kvs \<noteq> [])"

text \<open>\<^verbatim>\<open>d.get(k)\<close> on a dictionary: the value, or \<^verbatim>\<open>None\<close> when the key is absent.\<close>

definition dget :: "doc \<Rightarrow> string \<Rightarrow> pyval" where
  "dget d k = (case map_of d k of None \<Rightarrow> PNone | Some v \<Rightarrow> v)"

text \<open>\<^verbatim>\<open>x.get(k)\<close> on any value: only a dictionary has the method.\<close>

fun py_get :: "pyval \<Rightarrow> string \<Rightarrow> exn + pyval" where
  "py_get (PDict kvs) k = Inr (dget kvs k)"
| "py_get _ k = Inl AttributeError"

text \<open>\<^verbatim>\<open>x or y\<close>.\<close>

definition py_or :: "pyval \<Rightarrow> pyval \<Rightarrow> pyval" where
  "py_or x y = (if truthy x then x else y)"

text \<open>
  The collection \<^verbatim>\<open>users\<close>: document id and fields, in the order in which a query
  returns them. \<^verbatim>\<open>fs_db\<close> is \<^verbatim>\<open>None\<close> when the client could not be initialised.
\<close>

type_synonym users = "(string \<times> doc) list"
type_synonym fs_db = "users option"

text \<open>\<^verbatim>\<open>ref.get().to_dict() or {}\<close>: a document that does not exist reads as empty.\<close>

definition doc_of :: "users \<Rightarrow> string \<Rightarrow> doc" where
  "doc_of us ident = (case map_of us ident of None \<Rightarrow> [] | Some d \<Rightarrow> d)"

text \<open>\<^verbatim>\<open>collection("users").where("email", "==", e).limit(1).get()\<close>.\<close>

definition query_email :: "users \<Rightarrow> string \<Rightarrow> (string \<times> doc) option" where
  "query_email us e = find (\<lambda>(i, d). map_of d ''email'' = Some (PStr e)) us"

text \<open>
  \<^verbatim>\<open>ref.set(updates, merge=True)\<close>: every key of the dictionary given to \<^verbatim>\<open>set\<close> names
  one field, which is overwritten; the fields it does not name are kept. The keys are
  taken as they are: \<^verbatim>\<open>set\<close> does not read a dot in a key as a path into a nested map
  (only \<^verbatim>\<open>update\<close> does).
\<close>

definition set_merge :: "doc \<Rightarrow> doc \<Rightarrow> doc" where
  "set_merge d updates = fold (\<lambda>(k, v). AList.update k v) updates d"

definition write_doc :: "users \<Rightarrow> string \<Rightarrow> doc \<Rightarrow> users" where
  "write_doc us ref updates = AList.update ref (set_merge (doc_of us ref) updates) us"

section \<open>Plan constants\<close>

definition PLAN_CREDITS :: "string \<Rightarrow> int option" where
  "PLAN_CREDITS p =
     (if p = ''Basic'' then Some 50
      else if p = ''Pro'' then Some 200
      else if p = ''Premium'' then Some 1000
      else None)"

definition PAID_PLANS :: "string set" where
  "PAID_PLANS = {''Pro'', ''Premium''}"

text \<open>\<^verbatim>\<open>PLAN_CREDITS.get(plan, 0)\<close>.\<close>

definition plan_credits_get :: "string \<Rightarrow> int" where
  "plan_credits_get p = (case PLAN_CREDITS p of None \<Rightarrow> 0 | Some c \<Rightarrow> c)"

section \<open>The credit-ledger update\<close>

text \<open>
  The branch of \<^verbatim>\<open>_fs_set_user\<close> that stages the fields to write, from the document
  read. An exception raised here is caught by the function's \<^verbatim>\<open>except Exception\<close>.
\<close>

definition base_updates :: "string \<Rightarrow> doc" where
  "base_updates plan =
     [(''subscriptionSelected'', PBool True),
      (''subscriptionPlan'', PStr plan),
      (''creditDepletedAt'', PNone)]"

definition staged_updates :: "doc \<Rightarrow> string \<Rightarrow> int option \<Rightarrow> string option \<Rightarrow> exn + doc" where
  "staged_updates d plan credits_to_grant transaction_id =
     (if plan = ''Basic'' then
        (if \<not> truthy (dget d ''freeBasicGranted'') then
           Inr (base_updates plan @
                [(''credits'', PInt (the (PLAN_CREDITS ''Basic''))),
                 (''freeBasicGranted'', PBool True)])
         else Inr (base_updates plan))
      else if plan \<in> PAID_PLANS then
        (case transaction_id of
           Some t \<Rightarrow>
             (if t \<noteq> [] then
                (case py_get (py_or (dget d ''processedTxns'') (PDict [])) t of
                   Inl e \<Rightarrow> Inl e
                 | Inr already \<Rightarrow>
                     (if truthy already then Inr (base_updates plan)
                      else
                        Inr (base_updates plan @
                             [(''credits'',
                               PInt (case credits_to_grant of
                                       None \<Rightarrow> plan_credits_get plan | Some c \<Rightarrow> c)),
                              (''processedTxns.'' @ t, PBool True),
                              (''lastPaidTxn'', PStr t)])))
              else
                Inr (base_updates plan @
                     [(''credits'',
                       PInt (case credits_to_grant of
                               None \<Rightarrow> plan_credits_get plan | Some c \<Rightarrow> c))]))
         | None \<Rightarrow>
             Inr (base_updates plan @
                  [(''credits'',
                    PInt (case credits_to_grant of
                            None \<Rightarrow> plan_credits_get plan | Some c \<Rightarrow> c))]))
      else Inr (base_updates plan))"

text \<open>The document the call works on: by id, or the first one with that e-mail.\<close>

definition locate :: "users \<Rightarrow> string \<Rightarrow> bool \<Rightarrow> string option" where
  "locate us uid_or_email by_uid =
     (if by_uid then Some uid_or_email
      else map_option fst (query_email us uid_or_email))"

text \<open>
  \<^verbatim>\<open>_fs_set_user(uid_or_email, plan, *, credits_to_grant, by_uid, transaction_id)\<close>:
  the result and the store after the call.
\<close>

definition fs_set_user ::
  "fs_db \<Rightarrow> string \<Rightarrow> string \<Rightarrow> int option \<Rightarrow> bool \<Rightarrow> string option \<Rightarrow> bool \<times> fs_db" where
  "fs_set_user db uid_or_email plan credits_to_grant by_uid transaction_id =
     (case db of
        None \<Rightarrow> (False, None)
      | Some us \<Rightarrow>
          (case locate us uid_or_email by_uid of
             None \<Rightarrow> (False, Some us)
           | Some ref \<Rightarrow>
               (case staged_updates (doc_of us ref) plan credits_to_grant transaction_id of
                  Inl e \<Rightarrow> (False, Some us)
                | Inr updates \<Rightarrow> (True, Some (write_doc us ref updates)))))"

text \<open>The field \<^verbatim>\<open>credits\<close> of a user's document, absent or present.\<close>

definition credits_field :: "users \<Rightarrow> string \<Rightarrow> pyval option" where
  "credits_field us ident = map_of (doc_of us ident) ''credits''"

section \<open>Exceptions, names and library functions\<close>

text \<open>Sequencing of steps that may raise: the first exception ends the computation.\<close>

definition bnd :: "exn + 'a \<Rightarrow> ('a \<Rightarrow> exn + 'b) \<Rightarrow> exn + 'b" where
  "bnd m f = (case m of Inl e \<Rightarrow> Inl e | Inr x \<Rightarrow> f x)"

text \<open>\<^verbatim>\<open>a or b\<close> when either side may raise; \<^verbatim>\<open>b\<close> counts only when \<^verbatim>\<open>a\<close> is falsy.\<close>

definition or_else :: "exn + pyval \<Rightarrow> exn + pyval \<Rightarrow> exn + pyval" where
  "or_else a b = (case a of Inl e \<Rightarrow> Inl e | Inr v \<Rightarrow> if truthy v then Inr v else b)"

text \<open>\<^verbatim>\<open>(x.get(k1) or {}).get(k2)\<close>.\<close>

definition sub_get :: "pyval \<Rightarrow> string \<Rightarrow> string \<Rightarrow> exn + pyval" where
  "sub_get x k1 k2 = bnd (py_get x k1) (\<lambda>d. py_get (py_or d (PDict [])) k2)"

text \<open>
  The names that the \<^verbatim>\<open>import\<close> statements of \<^verbatim>\<open>api/views.py\<close> bind, in the order of
  the file. A name used in a function body and bound nowhere in the module raises
  \<^verbatim>\<open>NameError\<close> when the line that uses it runs.
\<close>

definition module_names :: "string list" where
  "module_names =
     [''json'', ''logging'', ''re'', ''time'',
      ''Any'', ''Dict'', ''List'', ''Optional'', ''Tuple'',
      ''requests'', ''config'', ''JsonResponse'', ''HttpRequest'', ''csrf_exempt'',
      ''os'', ''firebase_admin'', ''credentials'', ''firestore'',
      ''require_POST'', ''_dt'']"

definition global_name :: "string \<Rightarrow> exn + unit" where
  "global_name n = (if n \<in> set module_names then Inr () else Inl (NameError n))"

text \<open>
  The functions of Python's standard library that the handlers call on strings, taken
  as parameters: \<^verbatim>\<open>json.loads\<close>, \<^verbatim>\<open>base64.b64decode(...).decode("utf-8")\<close>, \<^verbatim>\<open>int\<close> on a
  string, \<^verbatim>\<open>datetime.fromisoformat\<close> and \<^verbatim>\<open>isoformat\<close>. \<^const>\<open>None\<close> is the call raising.
  A time is a number of microseconds.
\<close>

record pylib =
  json_loads :: "string \<Rightarrow> pyval option"
  b64decode :: "string \<Rightarrow> string option"
  int_of_str :: "string \<Rightarrow> int option"
  fromisoformat :: "string \<Rightarrow> int option"
  isoformat :: "int \<Rightarrow> string"

text \<open>ASCII letters; other characters have no case here.\<close>

definition lowers :: string where "lowers = ''abcdefghijklmnopqrstuvwxyz''"
definition uppers :: string where "uppers = ''ABCDEFGHIJKLMNOPQRSTUVWXYZ''"

definition to_lower :: "char \<Rightarrow> char" where
  "to_lower c = (case map_of (zip uppers lowers) c of None \<Rightarrow> c | Some l \<Rightarrow> l)"

definition to_upper :: "char \<Rightarrow> char" where
  "to_upper c = (case map_of (zip lowers uppers) c of None \<Rightarrow> c | Some u \<Rightarrow> u)"

text \<open>\<^verbatim>\<open>s.title()\<close>: a letter is upper-cased after a character without case, lower-cased
  after a letter.\<close>

fun title_from :: "bool \<Rightarrow> string \<Rightarrow> string" where
  "title_from prev [] = []"
| "title_from prev (c # cs) =
     (if c \<in> set lowers \<or> c \<in> set uppers
      then (if prev then to_lower c else to_upper c) # title_from True cs
      else c # title_from False cs)"

definition title :: "string \<Rightarrow> string" where
  "title s = title_from False s"

fun py_title :: "pyval \<Rightarrow> exn + pyval" where
  "py_title (PStr s) = Inr (PStr (title s))"
| "py_title _ = Inl AttributeError"

fun py_lower :: "pyval \<Rightarrow> exn + string" where
  "py_lower (PStr s) = Inr (map to_lower s)"
| "py_lower _ = Inl AttributeError"

text \<open>Whitespace among the characters of a \<^typ>\<open>string\<close>, and \<^verbatim>\<open>s.strip()\<close>.\<close>

definition is_space :: "char \<Rightarrow> bool" where
  "is_space c = (of_char c \<in> {9, 10, 11, 12, 13, 28, 29, 30, 31, 32, 133, 160 :: nat})"

definition strip :: "string \<Rightarrow> string" where
  "strip s = rev (dropWhile is_space (rev (dropWhile is_space s)))"

fun py_strip :: "pyval \<Rightarrow> exn + string" where
  "py_strip (PStr s) = Inr (strip s)"
| "py_strip _ = Inl AttributeError"

text \<open>\<^verbatim>\<open>sub in s\<close> on strings.\<close>

fun contains :: "string \<Rightarrow> string \<Rightarrow> bool" where
  "contains sub [] = (sub = [])"
| "contains sub (c # cs) = (take (length sub) (c # cs) = sub \<or> contains sub cs)"

text \<open>\<^verbatim>\<open>a == b\<close> where one side is a number or a string: numbers compare by value across
  \<^verbatim>\<open>bool\<close>, \<^verbatim>\<open>int\<close> and \<^verbatim>\<open>float\<close>.\<close>

fun num_of :: "pyval \<Rightarrow> rat option" where
  "num_of (PBool b) = Some (if b then 1 else 0)"
| "num_of (PInt i) = Some (of_int i)"
| "num_of (PFloat x) = Some x"
| "num_of _ = None"

definition py_eq :: "pyval \<Rightarrow> pyval \<Rightarrow> bool" where
  "py_eq a b =
     (case num_of a of
        Some x \<Rightarrow> (case num_of b of Some y \<Rightarrow> x = y | None \<Rightarrow> False)
      | None \<Rightarrow> (case num_of b of Some y \<Rightarrow> False | None \<Rightarrow> a = b))"

definition py_in :: "pyval \<Rightarrow> pyval list \<Rightarrow> bool" where
  "py_in a xs = list_ex (py_eq a) xs"

text \<open>\<^verbatim>\<open>xs[0]\<close>.\<close>

fun py_first :: "pyval \<Rightarrow> exn + pyval" where
  "py_first (PList (x # xs)) = Inr x"
| "py_first (PList []) = Inl IndexError"
| "py_first (PStr (c # cs)) = Inr (PStr [c])"
| "py_first (PStr []) = Inl IndexError"
| "py_first (PDict kvs) = Inl KeyError"
| "py_first _ = Inl TypeError"

text \<open>\<^verbatim>\<open>int(x)\<close>.\<close>

fun py_int :: "pylib \<Rightarrow> pyval \<Rightarrow> exn + int" where
  "py_int lib (PInt i) = Inr i"
| "py_int lib (PBool b) = Inr (if b then 1 else 0)"
| "py_int lib (PFloat x) = Inr (if 0 \<le> x then \<lfloor>x\<rfloor> else \<lceil>x\<rceil>)"
| "py_int lib (PStr s) = (case int_of_str lib s of None \<Rightarrow> Inl ValueError | Some i \<Rightarrow> Inr i)"
| "py_int lib _ = Inl TypeError"

section \<open>Requests and responses\<close>

datatype req_body = NotUtf8 | Empty | NotJson | Json pyval

record request =
  http_method :: string
  body :: req_body

datatype response =
    JsonResponse pyval nat
  | HttpResponseBadRequest string
  | HttpResponseNotAllowed

text \<open>\<^verbatim>\<open>return HttpResponseBadRequest(msg)\<close>: the name is looked up when the line runs.\<close>

definition bad_request :: "string \<Rightarrow> 's \<Rightarrow> exn + (response \<times> 's)" where
  "bad_request msg st =
     bnd (global_name ''HttpResponseBadRequest'') (\<lambda>_. Inr (HttpResponseBadRequest msg, st))"

section \<open>Calling the ledger update\<close>

text \<open>
  The header \<^verbatim>\<open>def _fs_set_user(uid_or_email, plan, *, credits_to_grant, by_uid=True,
  transaction_id=None)\<close>: two positional parameters, three keyword-only ones of which
  \<^verbatim>\<open>credits_to_grant\<close> has no default. A call is bound to it from the number of its
  positional arguments and the names of its keyword arguments; a call that cannot be
  bound raises \<^verbatim>\<open>TypeError\<close> before the body runs, outside its \<^verbatim>\<open>try\<close>.
\<close>

definition fs_set_user_positional :: "string list" where
  "fs_set_user_positional = [''uid_or_email'', ''plan'']"

definition fs_set_user_kwonly :: "string list" where
  "fs_set_user_kwonly = [''credits_to_grant'', ''by_uid'', ''transaction_id'']"

definition fs_set_user_bind :: "nat \<Rightarrow> string list \<Rightarrow> exn option" where
  "fs_set_user_bind npos kws =
     (if length fs_set_user_positional < npos then Some TypeError
      else if list_ex (\<lambda>k. k \<notin> set (fs_set_user_positional @ fs_set_user_kwonly)) kws
        then Some TypeError
      else if list_ex (\<lambda>k. k \<in> set (take npos fs_set_user_positional)) kws
        then Some TypeError
      else if list_ex (\<lambda>p. p \<notin> set kws)
                (drop npos fs_set_user_positional @ [''credits_to_grant''])
        then Some TypeError
      else None)"

text \<open>
  The body run on an identity taken from a JSON payload: an identity that is not a string
  makes the lookup raise inside the \<^verbatim>\<open>try\<close>, or match nothing.
\<close>

definition fs_set_user_dyn :: "fs_db \<Rightarrow> pyval \<Rightarrow> string \<Rightarrow> int \<Rightarrow> bool \<Rightarrow> bool \<times> fs_db" where
  "fs_set_user_dyn db ident plan credits by_uid =
     (case ident of
        PStr s \<Rightarrow> fs_set_user db s plan (Some credits) by_uid None
      | _ \<Rightarrow> (False, db))"

text \<open>The call \<^verbatim>\<open>_fs_set_user(ident, plan, credits, by_uid=...)\<close>, as the webhook, the
  plan confirmation and \<^verbatim>\<open>_apply_plan_to_user\<close> write it: three positional arguments.\<close>

definition fs_set_user_call3 ::
  "fs_db \<Rightarrow> pyval \<Rightarrow> string \<Rightarrow> int \<Rightarrow> bool \<Rightarrow> exn + (bool \<times> fs_db)" where
  "fs_set_user_call3 db ident plan credits by_uid =
     (case fs_set_user_bind 3 [''by_uid''] of
        Some e \<Rightarrow> Inl e
      | None \<Rightarrow> Inr (fs_set_user_dyn db ident plan credits by_uid))"

section \<open>Plan confirmation\<close>

definition confirm_plan :: "fs_db \<Rightarrow> request \<Rightarrow> exn + (response \<times> fs_db)" where
  "confirm_plan db req =
     (if http_method req \<noteq> ''POST'' then bad_request ''POST only'' db
      else case body req of
        Json b \<Rightarrow>
          bnd (py_get b ''uid'') (\<lambda>uid.
          bnd (py_get b ''plan'') (\<lambda>plan.
            if truthy uid \<and> plan \<in> {PStr ''Pro'', PStr ''Premium'', PStr ''Basic''} then
              bnd (fs_set_user_call3 db uid
                     (case plan of PStr p \<Rightarrow> p | _ \<Rightarrow> [])
                     (if plan = PStr ''Pro'' then 200
                      else if plan = PStr ''Premium'' then 1000 else 50)
                     True)
                (\<lambda>(updated, db').
                   Inr (JsonResponse (PDict [(''ok'', PBool updated)]) 200, db'))
            else bad_request ''Bad uid/plan'' db))
      | _ \<Rightarrow> bad_request ''Invalid JSON'' db)"

section \<open>The payment webhook\<close>

text \<open>
  \<^verbatim>\<open>_decode_passthrough\<close>. The first \<^verbatim>\<open>try\<close> starts with the name \<^verbatim>\<open>base64\<close>; whatever it
  raises is caught and the text is given to \<^verbatim>\<open>json.loads\<close> as it is.
\<close>

definition decode_b64_json :: "pylib \<Rightarrow> string \<Rightarrow> exn + pyval" where
  "decode_b64_json lib s =
     bnd (global_name ''base64'') (\<lambda>_.
       case b64decode lib s of
         None \<Rightarrow> Inl ValueError
       | Some decoded \<Rightarrow>
           (case json_loads lib decoded of None \<Rightarrow> Inl ValueError | Some v \<Rightarrow> Inr v))"

definition decode_passthrough :: "pylib \<Rightarrow> pyval \<Rightarrow> pyval" where
  "decode_passthrough lib v =
     (if \<not> truthy v then PDict []
      else case v of
        PDict kvs \<Rightarrow> v
      | PStr s \<Rightarrow>
          (case decode_b64_json lib s of
             Inr r \<Rightarrow> r
           | Inl e \<Rightarrow> (case json_loads lib s of Some r \<Rightarrow> r | None \<Rightarrow> PDict []))
      | _ \<Rightarrow> PDict [])"

text \<open>\<^verbatim>\<open>_get_identity_and_plan\<close>: the user id, the e-mail and the plan label.\<close>

definition get_identity_and_plan :: "pylib \<Rightarrow> pyval \<Rightarrow> exn + (pyval \<times> pyval \<times> pyval)" where
  "get_identity_and_plan lib data =
     bnd (or_else (or_else (sub_get data ''custom_data'' ''plan'')
                           (sub_get data ''metadata'' ''plan''))
                  (Inr PNone)) (\<lambda>plan_label0.
     bnd (or_else (or_else (py_get data ''passthrough'')
                           (sub_get data ''checkout'' ''passthrough''))
                  (sub_get data ''transaction'' ''passthrough'')) (\<lambda>passthrough_raw.
     let pt = decode_passthrough lib passthrough_raw in
     bnd (py_get pt ''uid'') (\<lambda>uid.
     bnd (if \<not> truthy plan_label0 then py_get pt ''plan'' else Inr plan_label0) (\<lambda>plan_label.
     bnd (or_else (or_else (or_else (sub_get data ''customer'' ''email'')
                                    (py_get data ''customer_email''))
                           (sub_get data ''billing_details'' ''email''))
                  (py_get pt ''email'')) (\<lambda>email.
     bnd (if truthy plan_label then py_title plan_label else Inr PNone) (\<lambda>plan.
       Inr (uid, email, plan)))))))"

text \<open>\<^verbatim>\<open>_infer_plan_from_names\<close>: whatever is raised inside is swallowed and gives
  \<^verbatim>\<open>None\<close>.\<close>

definition plan_of_name :: "string \<Rightarrow> pyval" where
  "plan_of_name name =
     (if contains ''premium'' name then PStr ''Premium''
      else if contains ''pro'' name then PStr ''Pro''
      else PNone)"

definition infer_from_line_items :: "pyval \<Rightarrow> exn + pyval" where
  "infer_from_line_items data =
     bnd (sub_get data ''details'' ''line_items'') (\<lambda>li0.
       let li = py_or li0 (PList []) in
       if truthy li then
         bnd (py_first li) (\<lambda>first.
         bnd (py_get first ''product'') (\<lambda>prod.
           case py_or prod (PDict []) of
             PDict kvs \<Rightarrow>
               bnd (py_lower (case map_of kvs ''name'' of None \<Rightarrow> PStr [] | Some n \<Rightarrow> n))
                 (\<lambda>prod_name. Inr (plan_of_name prod_name))
           | _ \<Rightarrow> Inl AttributeError))
       else Inr PNone)"

definition infer_plan_try :: "pyval \<Rightarrow> exn + pyval" where
  "infer_plan_try data =
     bnd (py_get data ''items'') (\<lambda>items0.
       let items = py_or items0 (PList []) in
       if truthy items then
         bnd (py_first items) (\<lambda>first.
         bnd (py_get first ''price'') (\<lambda>price.
         bnd (py_get (py_or price (PDict [])) ''name'') (\<lambda>name0.
         bnd (py_lower (py_or name0 (PStr []))) (\<lambda>name.
           if truthy (plan_of_name name) then Inr (plan_of_name name)
           else infer_from_line_items data))))
       else infer_from_line_items data)"

definition infer_plan_from_names :: "pyval \<Rightarrow> pyval" where
  "infer_plan_from_names data =
     (case infer_plan_try data of Inl e \<Rightarrow> PNone | Inr p \<Rightarrow> p)"

text \<open>\<^verbatim>\<open>_detect_credits\<close>.\<close>

definition detect_credits :: "pyval \<Rightarrow> pyval \<Rightarrow> exn + int" where
  "detect_credits plan_label data =
     (if plan_label = PStr ''Pro'' then Inr 200
      else if plan_label = PStr ''Premium'' then Inr 1000
      else
        bnd (py_get data ''details'') (\<lambda>details.
          case py_or details (PDict []) of
            PDict kvs \<Rightarrow>
              bnd (py_get (case map_of kvs ''totals'' of None \<Rightarrow> PDict [] | Some t \<Rightarrow> t)
                     ''grand_total'') (\<lambda>amount.
                if py_in amount [PInt 646, PStr ''6.46'', PFloat (646 / 100), PStr ''646'']
                  then Inr 200
                else if py_in amount
                          [PInt 1669, PStr ''16.69'', PFloat (1669 / 100), PStr ''1669'']
                  then Inr 1000
                else if py_in amount [PInt 575, PStr ''5.75'', PFloat (575 / 100), PStr ''575'']
                  then Inr 200
                else Inr 0)
          | _ \<Rightarrow> Inl AttributeError))"

definition interesting :: "string set" where
  "interesting =
     {''transaction.completed'', ''subscription.activated'',
      ''subscription.payment_succeeded'', ''checkout.completed''}"

text \<open>\<^verbatim>\<open>event_type not in interesting\<close>: a list or a dictionary cannot be hashed.\<close>

fun in_interesting :: "pyval \<Rightarrow> exn + bool" where
  "in_interesting (PStr s) = Inr (s \<in> interesting)"
| "in_interesting (PList xs) = Inl TypeError"
| "in_interesting (PDict kvs) = Inl TypeError"
| "in_interesting _ = Inr False"

text \<open>The part of \<^verbatim>\<open>paddle_webhook\<close> that follows the parsing of the body.\<close>

definition webhook_payload :: "pylib \<Rightarrow> fs_db \<Rightarrow> pyval \<Rightarrow> exn + (response \<times> fs_db)" where
  "webhook_payload lib db payload =
     bnd (py_get payload ''event'') (\<lambda>ev0.
     let event = py_or ev0 payload in
     bnd (or_else (or_else (py_get event ''type'') (py_get event ''name''))
                  (Inr (PStr ''unknown''))) (\<lambda>event_type.
     bnd (or_else (or_else (py_get event ''data'') (py_get event ''object''))
                  (Inr payload)) (\<lambda>data.
     bnd (in_interesting event_type) (\<lambda>known.
       if \<not> known then
         Inr (JsonResponse (PDict [(''ok'', PBool True), (''ignored'', event_type)]) 200, db)
       else
         bnd (get_identity_and_plan lib data) (\<lambda>(uid, email, plan0).
         let plan = (if \<not> truthy plan0 then infer_plan_from_names data else plan0) in
         bnd (detect_credits plan data) (\<lambda>credits.
           case plan of
             PStr p \<Rightarrow>
               (if p = [] then
                  Inr (JsonResponse
                         (PDict [(''ok'', PBool True), (''ignored'', PStr ''unknown_plan'')])
                         200, db)
                else
                  bnd (if truthy uid then fs_set_user_call3 db uid p credits True
                       else Inr (False, db)) (\<lambda>(updated1, db1).
                  bnd (if \<not> updated1 \<and> truthy email
                       then fs_set_user_call3 db1 email p credits False
                       else Inr (updated1, db1)) (\<lambda>(updated, db2).
                    if \<not> updated then
                      Inr (JsonResponse
                             (PDict [(''ok'', PBool True), (''no_user'', PBool True)]) 200, db2)
                    else Inr (JsonResponse (PDict [(''ok'', PBool True)]) 200, db2))))
           | _ \<Rightarrow>
               Inr (JsonResponse
                      (PDict [(''ok'', PBool True), (''ignored'', PStr ''unknown_plan'')])
                      200, db)))))))"

definition paddle_webhook :: "pylib \<Rightarrow> fs_db \<Rightarrow> request \<Rightarrow> exn + (response \<times> fs_db)" where
  "paddle_webhook lib db req =
     (if http_method req \<noteq> ''POST'' then bad_request ''POST only'' db
      else case body req of
        NotUtf8 \<Rightarrow> Inl UnicodeDecodeError
      | Empty \<Rightarrow> webhook_payload lib db (PDict [])
      | NotJson \<Rightarrow> bad_request ''Invalid JSON'' db
      | Json payload \<Rightarrow> webhook_payload lib db payload)"

section \<open>Refill after depletion\<close>

text \<open>
  The \<^verbatim>\<open>try\<close> block of \<^verbatim>\<open>refresh_credits\<close>: whether the stored time is at least 24 hours
  before \<^verbatim>\<open>now\<close>. The block uses the names \<^verbatim>\<open>datetime\<close> and \<^verbatim>\<open>timedelta\<close>; what it raises
  is caught by the handler, which then refills.
\<close>

definition day :: int where
  "day = 24 * 3600 * 1000000"

definition cooldown_over :: "pylib \<Rightarrow> int \<Rightarrow> pyval \<Rightarrow> exn + bool" where
  "cooldown_over lib now depleted_at =
     bnd (global_name ''datetime'') (\<lambda>_.
       case depleted_at of
         PStr s \<Rightarrow>
           (case fromisoformat lib (filter (\<lambda>c. c \<noteq> CHR ''Z'') s) of
              None \<Rightarrow> Inl ValueError
            | Some t0 \<Rightarrow> bnd (global_name ''timedelta'') (\<lambda>_. Inr (day \<le> now - t0)))
       | _ \<Rightarrow> Inl AttributeError)"

definition refill :: "string \<Rightarrow> doc" where
  "refill plan = [(''credits'', PInt (plan_credits_get plan)), (''creditDepletedAt'', PNone)]"

text \<open>The fields that \<^verbatim>\<open>refresh_credits\<close> stages for a document, at time \<^verbatim>\<open>now\<close>.\<close>

definition refresh_updates :: "pylib \<Rightarrow> int \<Rightarrow> doc \<Rightarrow> exn + doc" where
  "refresh_updates lib now d =
     bnd (py_title (py_or (dget d ''subscriptionPlan'') (PStr []))) (\<lambda>plan_v.
     let plan = (case plan_v of PStr p \<Rightarrow> p | _ \<Rightarrow> []) in
     bnd (py_int lib (py_or (dget d ''credits'') (PInt 0))) (\<lambda>credits.
     let heal = (if plan \<in> PAID_PLANS \<and> \<not> truthy (dget d ''subscriptionSelected'')
                 then [(''subscriptionSelected'', PBool True)] else []) in
     if plan \<in> PAID_PLANS \<and> credits \<le> 0 then
       bnd (global_name ''datetime'') (\<lambda>_.
         if \<not> truthy (dget d ''creditDepletedAt'') then
           Inr (heal @ [(''creditDepletedAt'', PStr (isoformat lib now @ ''Z''))])
         else
           (case cooldown_over lib now (dget d ''creditDepletedAt'') of
              Inr over \<Rightarrow> Inr (heal @ (if over then refill plan else []))
            | Inl e \<Rightarrow> Inr (heal @ refill plan)))
     else Inr heal))"

definition refresh_credits ::
  "pylib \<Rightarrow> int \<Rightarrow> fs_db \<Rightarrow> request \<Rightarrow> exn + (response \<times> fs_db)" where
  "refresh_credits lib now db req =
     (if http_method req \<noteq> ''POST'' then Inr (HttpResponseNotAllowed, db)
      else case body req of
        Json b \<Rightarrow>
          bnd (py_get b ''uid'') (\<lambda>uid0.
          bnd (py_strip (py_or uid0 (PStr []))) (\<lambda>uid.
          bnd (py_get b ''email'') (\<lambda>email0.
          bnd (py_strip (py_or email0 (PStr []))) (\<lambda>email.
            if uid = [] \<and> email = [] then
              Inr (JsonResponse
                     (PDict [(''ok'', PBool False), (''error'', PStr ''uid_or_email_required'')])
                     400, db)
            else case db of
              None \<Rightarrow>
                Inr (JsonResponse
                       (PDict [(''ok'', PBool False), (''error'', PStr ''fs_unavailable'')])
                       500, db)
            | Some us \<Rightarrow>
                (case (if uid \<noteq> [] then Some uid else map_option fst (query_email us email)) of
                   None \<Rightarrow>
                     Inr (JsonResponse
                            (PDict [(''ok'', PBool False), (''updated'', PBool False)]) 200, db)
                 | Some ref \<Rightarrow>
                     bnd (refresh_updates lib now (doc_of us ref)) (\<lambda>updates.
                       if updates \<noteq> [] then
                         Inr (JsonResponse
                                (PDict [(''ok'', PBool True), (''updated'', PBool True)]) 200,
                              Some (write_doc us ref updates))
                       else
                         Inr (JsonResponse
                                (PDict [(''ok'', PBool True), (''updated'', PBool False)]) 200,
                              db)))))))
      | _ \<Rightarrow>
          Inr (JsonResponse
                 (PDict [(''ok'', PBool False), (''error'', PStr ''invalid_json'')]) 400, db))"

section \<open>Completion calls\<close>

text \<open>
  Generated text is a list of code points, since characters beyond Latin-1 occur in it
  (the ellipsis that \<^verbatim>\<open>_cap_words\<close> appends). A message is a role and a content.
\<close>

type_synonym utext = "nat list"
type_synonym message = "utext \<times> utext"

text \<open>
  What one \<^verbatim>\<open>requests.post\<close> does: it returns a response with a status code and (under
  400) the content of the first choice, if the body has one; or it times out; or it
  raises another \<^verbatim>\<open>RequestException\<close>; or something else is raised while the response is
  read. An exception may come after the status code was seen.
\<close>

datatype attempt =
    Reply nat "utext option"
  | Timeout
  | RequestError "nat option"
  | Crash "nat option"

datatype err =
    SERVER_CONFIG
  | UPSTREAM_ERROR nat
  | BAD_RESPONSE
  | UPSTREAM_TIMEOUT
  | UPSTREAM_REQUEST_ERROR
  | SERVER_ERROR

record config =
  api_key :: utext
  model_primary :: utext
  model_fallback :: utext
  max_retries :: int
  debug_mode :: bool

definition RETRY_STATUS :: "nat set" where
  "RETRY_STATUS = {408, 409, 425, 429, 500, 502, 503, 504}"

text \<open>
  The network answers the \<open>n\<close>-th request of a run with \<open>net n\<close>. The world records how
  many requests were posted and, in order, the calls of \<^verbatim>\<open>call_openrouter\<close> with their
  messages and model. Sleeping between attempts and the measured latency are left out.
\<close>

record world =
  net :: "nat \<Rightarrow> attempt"
  posted :: nat
  calls :: "(message list \<times> utext) list"

record meta =
  status :: nat
  tries :: nat
  model :: utext

record loop_state =
  ls_tries :: nat
  last_status :: "nat option"
  content :: "utext option"
  error :: "err option"

definition has_content :: "utext option \<Rightarrow> bool" where
  "has_content c = (case c of None \<Rightarrow> False | Some t \<Rightarrow> t \<noteq> [])"

text \<open>
  The loop \<^verbatim>\<open>for attempt in range(MAX_RETRIES + 1)\<close> of \<^verbatim>\<open>call_openrouter\<close>, with \<open>n\<close>
  iterations left; request number \<open>first + attempt\<close> is posted in iteration \<open>attempt\<close>.
\<close>

fun attempts :: "int \<Rightarrow> (nat \<Rightarrow> attempt) \<Rightarrow> nat \<Rightarrow> nat \<Rightarrow> nat \<Rightarrow> loop_state \<Rightarrow> loop_state" where
  "attempts mx nt first attempt 0 st = st"
| "attempts mx nt first attempt (Suc n) st =
     (case nt (first + attempt) of
        Reply code c \<Rightarrow>
          (if 400 \<le> code then
             (if code \<in> RETRY_STATUS \<and> int attempt < mx
              then attempts mx nt first (attempt + 1) n
                     (st\<lparr>ls_tries := attempt + 1, last_status := Some code\<rparr>)
              else st\<lparr>ls_tries := attempt + 1, last_status := Some code,
                      error := Some (UPSTREAM_ERROR code)\<rparr>)
           else
             st\<lparr>ls_tries := attempt + 1, last_status := Some code, content := c,
                error := (if has_content c then error st else Some BAD_RESPONSE)\<rparr>)
      | Timeout \<Rightarrow>
          (if int attempt < mx
           then attempts mx nt first (attempt + 1) n (st\<lparr>ls_tries := attempt + 1\<rparr>)
           else attempts mx nt first (attempt + 1) n
                  (st\<lparr>ls_tries := attempt + 1, error := Some UPSTREAM_TIMEOUT\<rparr>))
      | RequestError seen \<Rightarrow>
          (if int attempt < mx
           then attempts mx nt first (attempt + 1) n
                  (st\<lparr>ls_tries := attempt + 1,
                      last_status := (case seen of None \<Rightarrow> last_status st | Some c \<Rightarrow> Some c)\<rparr>)
           else attempts mx nt first (attempt + 1) n
                  (st\<lparr>ls_tries := attempt + 1,
                      last_status := (case seen of None \<Rightarrow> last_status st | Some c \<Rightarrow> Some c),
                      error := Some UPSTREAM_REQUEST_ERROR\<rparr>))
      | Crash seen \<Rightarrow>
          st\<lparr>ls_tries := attempt + 1,
             last_status := (case seen of None \<Rightarrow> last_status st | Some c \<Rightarrow> Some c),
             error := Some SERVER_ERROR\<rparr>)"

definition call_openrouter ::
  "config \<Rightarrow> message list \<Rightarrow> utext \<Rightarrow> world \<Rightarrow> utext option \<times> meta \<times> err option \<times> world" where
  "call_openrouter cfg messages mdl w =
     (if api_key cfg = [] then
        (None, \<lparr>status = 0, tries = 0, model = mdl\<rparr>, Some SERVER_CONFIG,
         w\<lparr>calls := calls w @ [(messages, mdl)]\<rparr>)
      else
        let st = attempts (max_retries cfg) (net w) (posted w) 0 (nat (max_retries cfg + 1))
                   \<lparr>ls_tries = 0, last_status = None, content = None, error = None\<rparr>
        in (content st,
            \<lparr>status = (case last_status st of None \<Rightarrow> 0 | Some c \<Rightarrow> c),
             tries = ls_tries st, model = mdl\<rparr>,
            error st,
            w\<lparr>posted := posted w + ls_tries st, calls := calls w @ [(messages, mdl)]\<rparr>))"

text \<open>The error of \<^verbatim>\<open>generate_with_fallback\<close>: \<^verbatim>\<open>{"primary": err, "fallback": err2}\<close>.\<close>

datatype combined_err = Combined "err option" "err option"

definition generate_with_fallback ::
  "config \<Rightarrow> message list \<Rightarrow> world \<Rightarrow> utext option \<times> meta \<times> combined_err option \<times> world" where
  "generate_with_fallback cfg messages w =
     (case call_openrouter cfg messages (model_primary cfg) w of
        (content1, meta1, err1, w1) \<Rightarrow>
          if has_content content1 then (content1, meta1, None, w1)
          else
            (case call_openrouter cfg messages (model_fallback cfg) w1 of
               (content2, meta2, err2, w2) \<Rightarrow>
                 if has_content content2 then (content2, meta2, None, w2)
                 else (None, meta2, Some (Combined err1 err2), w2)))"

section \<open>Tightening generated text\<close>

text \<open>The characters that \<^verbatim>\<open>str.split\<close>, \<^verbatim>\<open>str.strip\<close> and \<^verbatim>\<open>\s\<close> take as whitespace.\<close>

definition is_ws :: "nat \<Rightarrow> bool" where
  "is_ws c =
     ((9 \<le> c \<and> c \<le> 13) \<or> (28 \<le> c \<and> c \<le> 32) \<or> c = 133 \<or> c = 160 \<or> c = 5760 \<or>
      (8192 \<le> c \<and> c \<le> 8202) \<or> c = 8232 \<or> c = 8233 \<or> c = 8239 \<or> c = 8287 \<or> c = 12288)"

definition ustrip :: "utext \<Rightarrow> utext" where
  "ustrip s = rev (dropWhile is_ws (rev (dropWhile is_ws s)))"

definition urstrip :: "utext \<Rightarrow> utext" where
  "urstrip s = rev (dropWhile is_ws (rev s))"

text \<open>\<^verbatim>\<open>s.split()\<close>: the maximal runs of characters that are not whitespace.\<close>

fun split_from :: "utext \<Rightarrow> utext \<Rightarrow> utext list" where
  "split_from cur [] = (if cur = [] then [] else [cur])"
| "split_from cur (c # cs) =
     (if is_ws c then (if cur = [] then split_from [] cs else cur # split_from [] cs)
      else split_from (cur @ [c]) cs)"

definition split :: "utext \<Rightarrow> utext list" where
  "split s = split_from [] s"

text \<open>\<^verbatim>\<open>" ".join(ws)\<close>.\<close>

fun join :: "utext list \<Rightarrow> utext" where
  "join [] = []"
| "join [w] = w"
| "join (w # v # ws) = w @ [32] @ join (v # ws)"

text \<open>\<^verbatim>\<open>s.rstrip(",;:\<close>\<open>\<endash>\<close>\<^verbatim>\<open>-")\<close>: comma, semicolon, colon, en dash, hyphen.\<close>

definition CAP_TRAIL :: "nat set" where
  "CAP_TRAIL = {44, 59, 58, 8211, 45}"

definition rstrip_in :: "nat set \<Rightarrow> utext \<Rightarrow> utext" where
  "rstrip_in X s = rev (dropWhile (\<lambda>c. c \<in> X) (rev s))"

text \<open>\<^verbatim>\<open>_cap_words\<close>; 8230 is the ellipsis.\<close>

definition cap_words :: "utext \<Rightarrow> nat \<Rightarrow> utext" where
  "cap_words s max_words =
     (if length (split s) \<le> max_words then s
      else rstrip_in CAP_TRAIL (join (take max_words (split s))) @ [8230])"

text \<open>
  \<^verbatim>\<open>_ensure_end_punct\<close>. The search for \<^verbatim>\<open>[.!?]$\<close> succeeds when the last character is one
  of the three, or when it is a newline that follows one of them.
\<close>

definition PUNCT :: "nat set" where
  "PUNCT = {46, 33, 63}"

definition search_end_punct :: "utext \<Rightarrow> bool" where
  "search_end_punct s =
     (s \<noteq> [] \<and> (last s \<in> PUNCT \<or>
                 (last s = 10 \<and> butlast s \<noteq> [] \<and> last (butlast s) \<in> PUNCT)))"

definition ensure_end_punct :: "utext \<Rightarrow> utext" where
  "ensure_end_punct s = (if search_end_punct s then s else if s \<noteq> [] then s @ [46] else s)"

text \<open>\<^verbatim>\<open>_strip_md_noise\<close>: the characters \<^verbatim>\<open>* _ ` > # ~\<close> are removed, then the text is
  stripped.\<close>

definition MD_NOISE :: "nat set" where
  "MD_NOISE = {42, 95, 96, 62, 35, 126}"

definition strip_md_noise :: "utext \<Rightarrow> utext" where
  "strip_md_noise s = ustrip (filter (\<lambda>c. c \<notin> MD_NOISE) s)"

text \<open>\<^verbatim>\<open>s.splitlines()[0]\<close>: the empty string has no line.\<close>

definition is_linebreak :: "nat \<Rightarrow> bool" where
  "is_linebreak c = (c \<in> {10, 11, 12, 13, 28, 29, 30, 133, 8232, 8233})"

definition first_line :: "utext \<Rightarrow> exn + utext" where
  "first_line s = (if s = [] then Inl IndexError else Inr (takeWhile (\<lambda>c. \<not> is_linebreak c) s))"

text \<open>
  The match of \<^verbatim>\<open>^(.+?[.!?])(\s|$)\<close> on one line: the shortest prefix of two characters or
  more that ends in \<^verbatim>\<open>.\<close>, \<^verbatim>\<open>!\<close> or \<^verbatim>\<open>?\<close> and is followed by whitespace or by the end.
\<close>

fun sentence_prefix :: "utext \<Rightarrow> utext \<Rightarrow> utext option" where
  "sentence_prefix acc [] = None"
| "sentence_prefix acc (c # cs) =
     (if acc \<noteq> [] \<and> c \<in> PUNCT \<and> (cs = [] \<or> is_ws (hd cs)) then Some (acc @ [c])
      else sentence_prefix (acc @ [c]) cs)"

definition first_sentence_or_line :: "utext \<Rightarrow> exn + utext" where
  "first_sentence_or_line s =
     bnd (first_line s) (\<lambda>l.
       case sentence_prefix [] (ustrip l) of
         Some m \<Rightarrow> Inr (ustrip m)
       | None \<Rightarrow> Inr (ustrip l))"

text \<open>
  The regular expressions that depend on Unicode word boundaries and case folding are
  taken as parameters: the search for a label (the text after \<^verbatim>\<open>label :\<close>, if the label
  occurs), the removal of trailing \<^verbatim>\<open>undefined\<close> tokens, the repair of fences and labels
  in \<^verbatim>\<open>_normalize_sections\<close>, and the three searches of the quality gates.
\<close>

record relib =
  search_label :: "utext \<Rightarrow> utext \<Rightarrow> utext option"
  sub_undefined :: "utext \<Rightarrow> utext"
  sub_labels :: "utext \<Rightarrow> utext"
  YOU_RE :: "utext \<Rightarrow> bool"
  GENERIC_Q_RE :: "utext \<Rightarrow> bool"
  ACTION_VERBS_RE :: "utext \<Rightarrow> bool"

definition T :: "string \<Rightarrow> utext" where
  "T s = map of_char s"

definition extract_after_label :: "relib \<Rightarrow> utext \<Rightarrow> utext \<Rightarrow> utext" where
  "extract_after_label re raw label =
     ustrip (sub_undefined re
       (case search_label re label (ustrip raw) of
          Some g \<Rightarrow> ustrip g
        | None \<Rightarrow> ustrip raw))"

text \<open>\<^verbatim>\<open>re.sub(r"^[\-\*\<close>\<open>\<bullet>\<close>\<^verbatim>\<open>]\s*", "", t, flags=re.MULTILINE)\<close>: at the start of a line, a
  bullet and the whitespace after it are dropped.\<close>

datatype scan = LineStart | Mid | Eating bool

definition BULLETS :: "nat set" where
  "BULLETS = {45, 42, 8226}"

fun at_line_start :: "scan \<Rightarrow> bool" where
  "at_line_start LineStart = True"
| "at_line_start Mid = False"
| "at_line_start (Eating nl) = nl"

fun eating :: "scan \<Rightarrow> bool" where
  "eating (Eating nl) = True"
| "eating _ = False"

fun drop_bullets :: "scan \<Rightarrow> utext \<Rightarrow> utext" where
  "drop_bullets st [] = []"
| "drop_bullets st (c # cs) =
     (if eating st \<and> is_ws c then drop_bullets (Eating (c = 10)) cs
      else if at_line_start st \<and> c \<in> BULLETS then drop_bullets (Eating False) cs
      else c # drop_bullets (if c = 10 then LineStart else Mid) cs)"

text \<open>\<^verbatim>\<open>re.sub(r"\s+", " ", t)\<close>.\<close>

fun collapse_ws :: "bool \<Rightarrow> utext \<Rightarrow> utext" where
  "collapse_ws in_run [] = []"
| "collapse_ws in_run (c # cs) =
     (if is_ws c then (if in_run then collapse_ws True cs else 32 # collapse_ws True cs)
      else c # collapse_ws False cs)"

definition tighten_hook :: "relib \<Rightarrow> utext \<Rightarrow> exn + utext" where
  "tighten_hook re raw =
     bnd (first_sentence_or_line (strip_md_noise (extract_after_label re raw (T ''Hook''))))
       (\<lambda>t. Inr (ensure_end_punct (cap_words t 16)))"

definition tighten_body :: "relib \<Rightarrow> utext \<Rightarrow> utext" where
  "tighten_body re raw =
     ensure_end_punct
       (cap_words
          (ustrip (collapse_ws False
             (drop_bullets LineStart
                (strip_md_noise (extract_after_label re raw (T ''Body'')))))) 80)"

definition tighten_cta :: "relib \<Rightarrow> utext \<Rightarrow> exn + utext" where
  "tighten_cta re raw =
     bnd (first_sentence_or_line (strip_md_noise (extract_after_label re raw (T ''CTA''))))
       (\<lambda>t. Inr (ensure_end_punct (cap_words t 20)))"

section \<open>The review generation\<close>

text \<open>\<^verbatim>\<open>_normalize_sections\<close>: line endings, then the substitutions, then \<^verbatim>\<open>rstrip\<close>.\<close>

fun crlf :: "utext \<Rightarrow> utext" where
  "crlf [] = []"
| "crlf [c] = [if c = 13 then 10 else c]"
| "crlf (c # d # cs) =
     (if c = 13 \<and> d = 10 then 10 # crlf cs
      else if c = 13 then 10 # crlf (d # cs)
      else c # crlf (d # cs))"

definition normalize_sections :: "relib \<Rightarrow> utext \<Rightarrow> utext" where
  "normalize_sections re t =
     (if t = [] then t else urstrip (sub_undefined re (sub_labels re (crlf t))))"

text \<open>The quality gates.\<close>

definition hook_needs_reforge :: "relib \<Rightarrow> utext \<Rightarrow> bool" where
  "hook_needs_reforge re h =
     (if h = [] then True
      else length (split h) < 8 \<or> 18 < length (split h) \<or> \<not> YOU_RE re h \<or> GENERIC_Q_RE re h)"

definition body_needs_reforge :: "relib \<Rightarrow> utext \<Rightarrow> bool" where
  "body_needs_reforge re b =
     (if b = [] then True
      else length (split b) < 50 \<or> 100 < length (split b) \<or> \<not> YOU_RE re b \<or>
           GENERIC_Q_RE re b \<or> \<not> ACTION_VERBS_RE re b)"

definition cta_needs_reforge :: "relib \<Rightarrow> utext \<Rightarrow> bool" where
  "cta_needs_reforge re c =
     (if c = [] then True
      else 24 < length (split c) \<or> \<not> ACTION_VERBS_RE re c \<or> \<not> YOU_RE re c)"

text \<open>The system prompts are constants of the module; their wording plays no part here.\<close>

record prompts =
  SYSTEM_PROMPT :: utext
  HOOK_SYSTEM_PROMPT :: utext
  BODY_SYSTEM_PROMPT :: utext
  CTA_SYSTEM_PROMPT :: utext
  REFORGE_HOOK_SYSTEM_PROMPT :: utext
  REFORGE_BODY_SYSTEM_PROMPT :: utext
  REFORGE_CTA_SYSTEM_PROMPT :: utext

definition msgs :: "utext \<Rightarrow> utext \<Rightarrow> message list" where
  "msgs sys usr = [(T ''system'', sys), (T ''user'', usr)]"

definition hook_msgs :: "prompts \<Rightarrow> utext \<Rightarrow> message list" where
  "hook_msgs pr user_prompt = msgs (HOOK_SYSTEM_PROMPT pr) user_prompt"

definition reforge_hook_msgs :: "prompts \<Rightarrow> utext \<Rightarrow> utext \<Rightarrow> message list" where
  "reforge_hook_msgs pr user_prompt hook =
     msgs (REFORGE_HOOK_SYSTEM_PROMPT pr)
       (user_prompt @ [10, 10] @
        T ''Rewrite this into a direct, second-person, highly relatable one-liner (8'' @ [8211] @
        T ''16 words), no generic questions:'' @ [10] @ T ''Hook: '' @ hook)"

definition body_msgs :: "prompts \<Rightarrow> utext \<Rightarrow> utext \<Rightarrow> message list" where
  "body_msgs pr user_prompt hook =
     msgs (BODY_SYSTEM_PROMPT pr)
       (user_prompt @ [10, 10] @ T ''Use this Hook (do not repeat it verbatim):'' @ [10] @ hook)"

definition reforge_body_msgs :: "prompts \<Rightarrow> utext \<Rightarrow> utext \<Rightarrow> message list" where
  "reforge_body_msgs pr user_prompt body_txt =
     msgs (REFORGE_BODY_SYSTEM_PROMPT pr)
       (user_prompt @ [10, 10] @
        T ''Rewrite this Body to be more human, persuasive, and concrete (60'' @ [8211] @
        T ''90 words):'' @ [10] @ T ''Body: '' @ body_txt)"

definition cta_msgs :: "prompts \<Rightarrow> utext \<Rightarrow> utext \<Rightarrow> message list" where
  "cta_msgs pr user_prompt body_txt =
     msgs (CTA_SYSTEM_PROMPT pr)
       (user_prompt @ [10, 10] @ T ''Here is the Body to build a CTA for:'' @ [10] @ body_txt)"

definition reforge_cta_msgs :: "prompts \<Rightarrow> utext \<Rightarrow> utext \<Rightarrow> message list" where
  "reforge_cta_msgs pr user_prompt cta_txt =
     msgs (REFORGE_CTA_SYSTEM_PROMPT pr)
       (user_prompt @ [10, 10] @
        T ''Rewrite this CTA to be imperative, viewer-directed, and specific:'' @ [10] @
        T ''CTA: '' @ cta_txt)"

definition combined :: "utext \<Rightarrow> utext \<Rightarrow> utext \<Rightarrow> utext" where
  "combined hook body_txt cta_txt =
     T ''Hook: '' @ hook @ [10, 10] @ T ''Body: '' @ body_txt @ [10, 10] @ T ''CTA: '' @ cta_txt"

definition text_of :: "utext option \<Rightarrow> utext" where
  "text_of c = (case c of None \<Rightarrow> [] | Some t \<Rightarrow> t)"

text \<open>
  The responses of \<^verbatim>\<open>generate_review\<close>: status 200 with the cleaned text and the metadata
  of its mode, or status 502 with the metadata of the last call and, in debug mode, the
  upstream error.
\<close>

datatype mode_meta =
    Single_shot meta
  | Premium_stepwise meta meta meta

datatype gen_response =
    Ok200 utext mode_meta
  | Failed502 meta "combined_err option"

text \<open>The one-shot path at the end of \<^verbatim>\<open>generate_review\<close>.\<close>

definition single_shot ::
  "config \<Rightarrow> relib \<Rightarrow> prompts \<Rightarrow> utext \<Rightarrow> world \<Rightarrow> gen_response \<times> world" where
  "single_shot cfg re pr user_prompt w =
     (case generate_with_fallback cfg (msgs (SYSTEM_PROMPT pr) user_prompt) w of
        (txt, mt, upstream_err, w') \<Rightarrow>
          if has_content txt
          then (Ok200 (normalize_sections re (ustrip (text_of txt))) (Single_shot mt), w')
          else (Failed502 mt (if debug_mode cfg then upstream_err else None), w'))"

text \<open>Tightening, gate and reforge of each section, once its generation has succeeded.\<close>

definition hook_text ::
  "config \<Rightarrow> relib \<Rightarrow> prompts \<Rightarrow> utext \<Rightarrow> utext \<Rightarrow> world \<Rightarrow> exn + (utext \<times> world)" where
  "hook_text cfg re pr user_prompt hook_raw w =
     bnd (tighten_hook re hook_raw) (\<lambda>hook.
       if hook_needs_reforge re hook then
         (case generate_with_fallback cfg (reforge_hook_msgs pr user_prompt hook) w of
            (reforged_raw, m, e, w') \<Rightarrow>
              if has_content reforged_raw
              then bnd (tighten_hook re (text_of reforged_raw)) (\<lambda>hook'. Inr (hook', w'))
              else Inr (hook, w'))
       else Inr (hook, w))"

definition body_text ::
  "config \<Rightarrow> relib \<Rightarrow> prompts \<Rightarrow> utext \<Rightarrow> utext \<Rightarrow> world \<Rightarrow> utext \<times> world" where
  "body_text cfg re pr user_prompt body_raw w =
     (if body_needs_reforge re (tighten_body re body_raw) then
        (case generate_with_fallback cfg
                (reforge_body_msgs pr user_prompt (tighten_body re body_raw)) w of
           (reforged_raw, m, e, w') \<Rightarrow>
             if has_content reforged_raw
             then (tighten_body re (text_of reforged_raw), w')
             else (tighten_body re body_raw, w'))
      else (tighten_body re body_raw, w))"

definition cta_text ::
  "config \<Rightarrow> relib \<Rightarrow> prompts \<Rightarrow> utext \<Rightarrow> utext \<Rightarrow> world \<Rightarrow> exn + (utext \<times> world)" where
  "cta_text cfg re pr user_prompt cta_raw w =
     bnd (tighten_cta re cta_raw) (\<lambda>cta_txt.
       if cta_needs_reforge re cta_txt then
         (case generate_with_fallback cfg (reforge_cta_msgs pr user_prompt cta_txt) w of
            (reforged_raw, m, e, w') \<Rightarrow>
              if has_content reforged_raw
              then bnd (tighten_cta re (text_of reforged_raw)) (\<lambda>cta'. Inr (cta', w'))
              else Inr (cta_txt, w'))
       else Inr (cta_txt, w))"

text \<open>
  \<^verbatim>\<open>generate_review\<close> from the line \<^verbatim>\<open>if plan == "Premium"\<close> on, for the plan and the user
  prompt that the handler has computed from the request.
\<close>

definition generate_review ::
  "config \<Rightarrow> relib \<Rightarrow> prompts \<Rightarrow> string \<Rightarrow> utext \<Rightarrow> world \<Rightarrow> exn + (gen_response \<times> world)" where
  "generate_review cfg re pr plan user_prompt w =
     (if plan = ''Premium'' then
        (case generate_with_fallback cfg (hook_msgs pr user_prompt) w of
           (hook_raw, hook_meta, hook_err, w1) \<Rightarrow>
             if has_content hook_raw then
               bnd (hook_text cfg re pr user_prompt (text_of hook_raw) w1) (\<lambda>(hook, w2).
                 case generate_with_fallback cfg (body_msgs pr user_prompt hook) w2 of
                   (body_raw, body_meta, body_err, w3) \<Rightarrow>
                     if has_content body_raw then
                       (case body_text cfg re pr user_prompt (text_of body_raw) w3 of
                          (body_txt, w4) \<Rightarrow>
                            (case generate_with_fallback cfg
                                    (cta_msgs pr user_prompt body_txt) w4 of
                               (cta_raw, cta_meta, cta_err, w5) \<Rightarrow>
                                 if has_content cta_raw then
                                   bnd (cta_text cfg re pr user_prompt (text_of cta_raw) w5)
                                     (\<lambda>(cta_txt, w6).
                                        Inr (Ok200
                                               (normalize_sections re
                                                  (ustrip (combined hook body_txt cta_txt)))
                                               (Premium_stepwise hook_meta body_meta cta_meta),
                                             w6))
                                 else Inr (single_shot cfg re pr user_prompt w5)))
                     else Inr (single_shot cfg re pr user_prompt w3))
             else Inr (single_shot cfg re pr user_prompt w1))
      else Inr (single_shot cfg re pr user_prompt w))"

text \<open>A response of the one-shot path: mode \<^verbatim>\<open>single_shot\<close>, or the upstream failure.\<close>

fun single_shot_path :: "gen_response \<Rightarrow> bool" where
  "single_shot_path (Ok200 t (Single_shot m)) = True"
| "single_shot_path (Ok200 t (Premium_stepwise h b c)) = False"
| "single_shot_path (Failed502 m e) = True"



section \<open>Properties of the store\<close>

lemma map_of_set_merge:
  "map_of (set_merge d ups) k =
     (case map_of (rev ups) k of None \<Rightarrow> map_of d k | Some v \<Rightarrow> Some v)"
  unfolding set_merge_def
proof (induction ups arbitrary: d)
  case Nil
  then show ?case by simp
next
  case (Cons a ups)
  obtain k' v' where a: "a = (k', v')" by (cases a)
  show ?case using Cons[of "AList.update k' v' d"]
    by (auto simp: a update_conv' map_add_def split: option.splits)
qed

lemma doc_of_write_doc:
  "doc_of (write_doc us r ups) i =
     (if i = r then set_merge (doc_of us r) ups else doc_of us i)"
  by (simp add: doc_of_def write_doc_def update_conv')

lemma find_update_email:
  "map_of d' ''email'' = map_of (doc_of us r) ''email'' \<Longrightarrow>
   map_option fst (find (\<lambda>(i, d). map_of d ''email'' = Some (PStr e)) (AList.update r d' us))
   = map_option fst (find (\<lambda>(i, d). map_of d ''email'' = Some (PStr e)) us)"
proof (induction us)
  case Nil
  then show ?case by (simp add: doc_of_def)
next
  case (Cons a us)
  obtain k v where a: "a = (k, v)" by (cases a)
  show ?case using Cons by (auto simp: a doc_of_def)
qed

text \<open>A write that does not name the field \<^verbatim>\<open>email\<close> does not change which document
  an identity resolves to.\<close>

lemma locate_write_doc:
  "map_of (rev ups) ''email'' = None \<Longrightarrow> locate (write_doc us r ups) x b = locate us x b"
  unfolding locate_def query_email_def write_doc_def
  by (simp add: find_update_email map_of_set_merge)

lemma staged_no_email:
  "staged_updates d plan c t = Inr ups \<Longrightarrow> map_of (rev ups) ''email'' = None"
  by (auto simp: staged_updates_def base_updates_def split: if_splits option.splits sum.splits)

section \<open>Properties of the credit ledger\<close>

lemma basic_flag_set:
  assumes "staged_updates d ''Basic'' c t = Inr ups"
  shows "truthy (dget (set_merge d ups) ''freeBasicGranted'')"
  using assms
  by (auto simp: staged_updates_def base_updates_def dget_def map_of_set_merge
           split: if_splits option.splits)

lemma basic_gate:
  assumes "truthy (dget d ''freeBasicGranted'')"
  shows "staged_updates d ''Basic'' c t = Inr (base_updates ''Basic'')"
  using assms by (simp add: staged_updates_def)

lemma base_updates_credits:
  "map_of (set_merge d (base_updates p)) ''credits'' = map_of d ''credits''"
  by (simp add: map_of_set_merge base_updates_def)

text \<open>
  Claim C1, evaluated. A paid update with transaction id \<^verbatim>\<open>tx1\<close> writes the field named
  \<^verbatim>\<open>processedTxns.tx1\<close>, and the next update with the same id looks for the key
  \<^verbatim>\<open>tx1\<close> in the field \<^verbatim>\<open>processedTxns\<close>, which was never written: the transaction is
  not recognised and credits are granted again. On an empty record, the first call for
  \<^verbatim>\<open>Pro\<close> sets 200 credits; a second call with the same plan and id and the explicit
  amount 500 sets 500; and a second call on the record whose balance has since dropped
  to 0 sets it back to 200.
\<close>

theorem paid_txn_granted_again:
  "fs_set_user (Some [(''u1'', [])]) ''u1'' ''Pro'' None True (Some ''tx1'')
     = (True, Some [(''u1'',
          [(''subscriptionSelected'', PBool True), (''subscriptionPlan'', PStr ''Pro''),
           (''creditDepletedAt'', PNone), (''credits'', PInt 200),
           (''processedTxns.tx1'', PBool True), (''lastPaidTxn'', PStr ''tx1'')])])
   \<and> fs_set_user (Some [(''u1'',
          [(''subscriptionSelected'', PBool True), (''subscriptionPlan'', PStr ''Pro''),
           (''creditDepletedAt'', PNone), (''credits'', PInt 200),
           (''processedTxns.tx1'', PBool True), (''lastPaidTxn'', PStr ''tx1'')])])
        ''u1'' ''Pro'' (Some 500) True (Some ''tx1'')
     = (True, Some [(''u1'',
          [(''subscriptionSelected'', PBool True), (''subscriptionPlan'', PStr ''Pro''),
           (''creditDepletedAt'', PNone), (''credits'', PInt 500),
           (''processedTxns.tx1'', PBool True), (''lastPaidTxn'', PStr ''tx1'')])])
   \<and> fs_set_user (Some [(''u1'',
          [(''subscriptionSelected'', PBool True), (''subscriptionPlan'', PStr ''Pro''),
           (''creditDepletedAt'', PNone), (''credits'', PInt 0),
           (''processedTxns.tx1'', PBool True), (''lastPaidTxn'', PStr ''tx1'')])])
        ''u1'' ''Pro'' None True (Some ''tx1'')
     = (True, Some [(''u1'',
          [(''subscriptionSelected'', PBool True), (''subscriptionPlan'', PStr ''Pro''),
           (''creditDepletedAt'', PNone), (''credits'', PInt 200),
           (''processedTxns.tx1'', PBool True), (''lastPaidTxn'', PStr ''tx1'')])])"
  by (simp add: fs_set_user_def locate_def staged_updates_def doc_of_def dget_def py_or_def
        base_updates_def write_doc_def set_merge_def PLAN_CREDITS_def PAID_PLANS_def
        plan_credits_get_def)

text \<open>
  Claim C2. In every state of the store: when the identity resolves to a document whose
  \<^verbatim>\<open>freeBasicGranted\<close> is set, a Basic update succeeds and leaves the field \<^verbatim>\<open>credits\<close> of
  every document as it was, whatever amount and transaction id it is given. And a
  successful Basic update leaves the store in such a state: the identity still resolves,
  the flag of its document is set, and every further Basic update leaves every
  \<^verbatim>\<open>credits\<close> field unchanged. So the free pack is granted at most once per account, also
  when the balance has changed in between.
\<close>

theorem basic_grant_once:
  "(locate us ident by_uid = Some r \<and> truthy (dget (doc_of us r) ''freeBasicGranted'') \<longrightarrow>
      (\<exists>us'. fs_set_user (Some us) ident ''Basic'' c by_uid t = (True, Some us') \<and>
             (\<forall>i. credits_field us' i = credits_field us i)))
   \<and> (fs_set_user db ident ''Basic'' c1 by_uid t1 = (True, db1) \<longrightarrow>
      (\<exists>us1 r1. db1 = Some us1 \<and> locate us1 ident by_uid = Some r1 \<and>
                truthy (dget (doc_of us1 r1) ''freeBasicGranted'') \<and>
                (\<forall>c2 t2. \<exists>us2. fs_set_user db1 ident ''Basic'' c2 by_uid t2 = (True, Some us2) \<and>
                            (\<forall>i. credits_field us2 i = credits_field us1 i))))"
proof -
  have gate: "\<exists>us'. fs_set_user (Some us) ident ''Basic'' c by_uid t = (True, Some us') \<and>
             (\<forall>i. credits_field us' i = credits_field us i)"
    if "locate us ident by_uid = Some r" and "truthy (dget (doc_of us r) ''freeBasicGranted'')"
    for us r c t
    using that basic_gate[OF that(2)]
    by (simp add: fs_set_user_def credits_field_def doc_of_write_doc base_updates_credits)
  have first: "\<exists>us1 r1. db1 = Some us1 \<and> locate us1 ident by_uid = Some r1 \<and>
                truthy (dget (doc_of us1 r1) ''freeBasicGranted'') \<and>
                (\<forall>c2 t2. \<exists>us2. fs_set_user db1 ident ''Basic'' c2 by_uid t2 = (True, Some us2) \<and>
                            (\<forall>i. credits_field us2 i = credits_field us1 i))"
    if a: "fs_set_user db ident ''Basic'' c1 by_uid t1 = (True, db1)"
  proof -
    from a obtain us0 r0 ups where
      r: "locate us0 ident by_uid = Some r0" and
      ups: "staged_updates (doc_of us0 r0) ''Basic'' c1 t1 = Inr ups" and
      db1: "db1 = Some (write_doc us0 r0 ups)"
      by (auto simp: fs_set_user_def split: option.splits sum.splits)
    let ?us1 = "write_doc us0 r0 ups"
    have loc: "locate ?us1 ident by_uid = Some r0"
      using r staged_no_email[OF ups] by (simp add: locate_write_doc)
    have flag: "truthy (dget (doc_of ?us1 r0) ''freeBasicGranted'')"
      using basic_flag_set[OF ups] by (simp add: doc_of_write_doc)
    show ?thesis using db1 loc flag gate[OF loc flag] by blast
  qed
  from gate first show ?thesis by blast
qed

theorem basic_grant_once_witness:
  "locate [(''u1'', [(''credits'', PInt 30), (''freeBasicGranted'', PBool True)])] ''u1'' True
     = Some ''u1''
   \<and> truthy (dget (doc_of [(''u1'', [(''credits'', PInt 30), (''freeBasicGranted'', PBool True)])]
                ''u1'') ''freeBasicGranted'')
   \<and> (\<exists>us'. fs_set_user
               (Some [(''u1'', [(''credits'', PInt 30), (''freeBasicGranted'', PBool True)])])
               ''u1'' ''Basic'' (Some 75) True (Some ''tx9'') = (True, Some us')
            \<and> credits_field us' ''u1'' = Some (PInt 30))
   \<and> fs_set_user (Some [(''u1'', [(''credits'', PInt 7)])]) ''u1'' ''Basic'' None True None
     = (True, Some [(''u1'', [(''credits'', PInt 50), (''subscriptionSelected'', PBool True),
          (''subscriptionPlan'', PStr ''Basic''), (''creditDepletedAt'', PNone),
          (''freeBasicGranted'', PBool True)])])
   \<and> (\<exists>us2. fs_set_user (Some [(''u1'', [(''credits'', PInt 50),
          (''subscriptionSelected'', PBool True),
          (''subscriptionPlan'', PStr ''Basic''), (''creditDepletedAt'', PNone),
          (''freeBasicGranted'', PBool True)])]) ''u1'' ''Basic'' (Some 75) True (Some ''tx9'')
        = (True, Some us2) \<and> credits_field us2 ''u1'' = Some (PInt 50))"
proof -
  let ?us = "[(''u1'', [(''credits'', PInt 30), (''freeBasicGranted'', PBool True)])]"
  let ?d1 = "[(''u1'', [(''credits'', PInt 50), (''subscriptionSelected'', PBool True),
          (''subscriptionPlan'', PStr ''Basic''), (''creditDepletedAt'', PNone),
          (''freeBasicGranted'', PBool True)])]"
  have l: "locate ?us ''u1'' True = Some ''u1''" by (simp add: locate_def)
  have f: "truthy (dget (doc_of ?us ''u1'') ''freeBasicGranted'')"
    by (simp add: doc_of_def dget_def)
  from basic_grant_once[where us = ?us and ident = "''u1''" and by_uid = True and r = "''u1''"
      and c = "Some 75" and t = "Some ''tx9''"] l f
  obtain us' where
    g: "fs_set_user (Some ?us) ''u1'' ''Basic'' (Some 75) True (Some ''tx9'') = (True, Some us')"
    and k: "credits_field us' ''u1'' = credits_field ?us ''u1''"
    by blast
  have k': "credits_field us' ''u1'' = Some (PInt 30)"
    unfolding k by (simp add: credits_field_def doc_of_def)
  have a: "fs_set_user (Some [(''u1'', [(''credits'', PInt 7)])]) ''u1'' ''Basic'' None True None
     = (True, Some ?d1)"
    by (simp add: fs_set_user_def locate_def staged_updates_def doc_of_def dget_def
          base_updates_def write_doc_def set_merge_def PLAN_CREDITS_def)
  from basic_grant_once[where db = "Some [(''u1'', [(''credits'', PInt 7)])]" and ident = "''u1''"
      and ?c1.0 = None and by_uid = True and ?t1.0 = None and ?db1.0 = "Some ?d1"] a
  obtain us2 where
    b: "fs_set_user (Some ?d1) ''u1'' ''Basic'' (Some 75) True (Some ''tx9'') = (True, Some us2)"
    and c: "credits_field us2 ''u1'' = credits_field ?d1 ''u1''"
    by blast
  have c': "credits_field us2 ''u1'' = Some (PInt 50)"
    unfolding c by (simp add: credits_field_def doc_of_def)
  from l f g k' a b c' show ?thesis by blast
qed

text \<open>
  Claim C10. Let the identity resolve to a document. A Basic update on a document whose
  \<^verbatim>\<open>freeBasicGranted\<close> is unset, a paid update without a transaction id, and a paid update
  with a transaction id that the guard does not find, all succeed and leave in
  \<^verbatim>\<open>credits\<close> exactly the granted amount: 50 for Basic, and for a paid plan the explicit
  amount when one is given, else 200 for Pro and 1000 for Premium. The amount does not
  depend on the balance the document had.
\<close>

theorem grant_sets_credits:
  assumes "locate us ident by_uid = Some r"
  shows "(plan = ''Basic'' \<and> \<not> truthy (dget (doc_of us r) ''freeBasicGranted'') \<longrightarrow>
            (\<exists>us'. fs_set_user (Some us) ident plan c by_uid t = (True, Some us') \<and>
                   credits_field us' r = Some (PInt 50)))
       \<and> (plan \<in> PAID_PLANS \<and> (t = None \<or> t = Some []) \<longrightarrow>
            (\<exists>us'. fs_set_user (Some us) ident plan c by_uid t = (True, Some us') \<and>
                   credits_field us' r =
                     Some (PInt (case c of Some a \<Rightarrow> a
                                 | None \<Rightarrow> if plan = ''Pro'' then 200 else 1000))))
       \<and> (plan \<in> PAID_PLANS \<and> t = Some tx \<and> tx \<noteq> [] \<and>
          py_get (py_or (dget (doc_of us r) ''processedTxns'') (PDict [])) tx = Inr already \<and>
          \<not> truthy already \<longrightarrow>
            (\<exists>us'. fs_set_user (Some us) ident plan c by_uid t = (True, Some us') \<and>
                   credits_field us' r =
                     Some (PInt (case c of Some a \<Rightarrow> a
                                 | None \<Rightarrow> if plan = ''Pro'' then 200 else 1000))))"
  using assms
  by (auto simp: fs_set_user_def staged_updates_def credits_field_def doc_of_write_doc
        map_of_set_merge base_updates_def PLAN_CREDITS_def PAID_PLANS_def plan_credits_get_def
        split: option.splits)

theorem grant_sets_credits_witness:
  "locate [(''u1'', [(''credits'', PInt 7)])] ''u1'' True = Some ''u1''
   \<and> \<not> truthy (dget (doc_of [(''u1'', [(''credits'', PInt 7)])] ''u1'') ''freeBasicGranted'')
   \<and> (\<exists>us'. fs_set_user (Some [(''u1'', [(''credits'', PInt 7)])]) ''u1'' ''Basic''
               (Some 75) True None = (True, Some us')
             \<and> credits_field us' ''u1'' = Some (PInt 50))
   \<and> ''Premium'' \<in> PAID_PLANS
   \<and> (\<exists>us'. fs_set_user (Some [(''u1'', [(''credits'', PInt 7)])]) ''u1'' ''Premium''
               None True None = (True, Some us')
             \<and> credits_field us' ''u1'' = Some (PInt 1000))
   \<and> py_get (py_or (dget (doc_of [(''u1'', [(''credits'', PInt 7)])] ''u1'') ''processedTxns'')
               (PDict [])) ''tx1'' = Inr PNone
   \<and> (\<exists>us'. fs_set_user (Some [(''u1'', [(''credits'', PInt 7)])]) ''u1'' ''Premium''
               (Some 30) True (Some ''tx1'') = (True, Some us')
             \<and> credits_field us' ''u1'' = Some (PInt 30))"
proof -
  let ?us = "[(''u1'', [(''credits'', PInt 7)])]"
  have l: "locate ?us ''u1'' True = Some ''u1''" by (simp add: locate_def)
  have f: "\<not> truthy (dget (doc_of ?us ''u1'') ''freeBasicGranted'')"
    by (simp add: doc_of_def dget_def)
  have p: "''Premium'' \<in> PAID_PLANS" by (simp add: PAID_PLANS_def)
  have g: "py_get (py_or (dget (doc_of ?us ''u1'') ''processedTxns'') (PDict [])) ''tx1''
             = Inr PNone"
    by (simp add: doc_of_def dget_def py_or_def)
  have n: "\<not> truthy PNone" by simp
  from grant_sets_credits[OF l, where plan = "''Basic''" and c = "Some 75" and t = None] f
  have 1: "\<exists>us'. fs_set_user (Some ?us) ''u1'' ''Basic'' (Some 75) True None = (True, Some us')
             \<and> credits_field us' ''u1'' = Some (PInt 50)"
    by blast
  from grant_sets_credits[OF l, where plan = "''Premium''" and c = None and t = None] p
  have 2: "\<exists>us'. fs_set_user (Some ?us) ''u1'' ''Premium'' None True None = (True, Some us')
             \<and> credits_field us' ''u1'' = Some (PInt 1000)"
    by simp
  from grant_sets_credits[OF l, where plan = "''Premium''" and c = "Some 30"
      and t = "Some ''tx1''" and tx = "''tx1''" and already = PNone] p g n
  have 3: "\<exists>us'. fs_set_user (Some ?us) ''u1'' ''Premium'' (Some 30) True (Some ''tx1'')
               = (True, Some us')
             \<and> credits_field us' ''u1'' = Some (PInt 30)"
    by simp
  from l f 1 p 2 g 3 show ?thesis by blast
qed

section \<open>Properties of the handlers\<close>

lemma fs_set_user_call3_raises:
  "fs_set_user_call3 db ident plan credits by_uid = Inl TypeError"
  by (simp add: fs_set_user_call3_def fs_set_user_bind_def fs_set_user_positional_def)

text \<open>
  Claim C9, evaluated. A POST to the plan confirmation whose body holds a truthy
  \<^verbatim>\<open>uid\<close> and a plan among \<^verbatim>\<open>Pro\<close>, \<^verbatim>\<open>Premium\<close>, \<^verbatim>\<open>Basic\<close> does not return a response: the
  handler calls \<^verbatim>\<open>_fs_set_user(uid, plan, credits, by_uid=True)\<close> with three positional
  arguments where the function takes two, and the \<^verbatim>\<open>TypeError\<close> of the call leaves the
  handler.
\<close>

theorem confirm_plan_raises:
  assumes "http_method req = ''POST''" and "body req = Json (PDict kvs)"
    and "truthy (dget kvs ''uid'')"
    and "dget kvs ''plan'' \<in> {PStr ''Pro'', PStr ''Premium'', PStr ''Basic''}"
  shows "confirm_plan db req = Inl TypeError"
  using assms by (simp add: confirm_plan_def bnd_def fs_set_user_call3_raises)

theorem confirm_plan_raises_witness:
  "confirm_plan (Some [(''u1'', [])])
     \<lparr>http_method = ''POST'',
      body = Json (PDict [(''uid'', PStr ''u1''), (''plan'', PStr ''Pro'')])\<rparr>
   = Inl TypeError"
  using confirm_plan_raises[of
      "\<lparr>http_method = ''POST'',
        body = Json (PDict [(''uid'', PStr ''u1''), (''plan'', PStr ''Pro'')])\<rparr>"
      "[(''uid'', PStr ''u1''), (''plan'', PStr ''Pro'')]" "Some [(''u1'', [])]"]
  by (simp add: dget_def)

text \<open>
  Claim C3, evaluated. An allowed event with the plan \<^verbatim>\<open>pro\<close> in its custom data and the
  customer's e-mail: the handler reaches \<^verbatim>\<open>_fs_set_user(email, plan, credits,
  by_uid=False)\<close>, the call raises \<^verbatim>\<open>TypeError\<close>, and no response with status 200 is
  returned. The same event without any identity makes no ledger call and is answered
  with \<^verbatim>\<open>{ok: true, no_user: true}\<close> and status 200.
\<close>

theorem paddle_webhook_raises:
  "paddle_webhook lib db
     \<lparr>http_method = ''POST'',
      body = Json (PDict [(''type'', PStr ''transaction.completed''),
               (''data'', PDict [(''custom_data'', PDict [(''plan'', PStr ''pro'')]),
                                 (''customer'', PDict [(''email'', PStr ''a@b.c'')])])])\<rparr>
     = Inl TypeError
   \<and> paddle_webhook lib db
     \<lparr>http_method = ''POST'',
      body = Json (PDict [(''type'', PStr ''transaction.completed''),
               (''data'', PDict [(''custom_data'', PDict [(''plan'', PStr ''pro'')])])])\<rparr>
     = Inr (JsonResponse (PDict [(''ok'', PBool True), (''no_user'', PBool True)]) 200, db)"
  by (simp add: paddle_webhook_def webhook_payload_def bnd_def or_else_def sub_get_def dget_def
       py_or_def interesting_def get_identity_and_plan_def decode_passthrough_def
       title_def lowers_def uppers_def to_upper_def to_lower_def detect_credits_def
       fs_set_user_call3_raises)

lemma decode_passthrough_str:
  "decode_passthrough lib (PStr s) =
     (if s = [] then PDict []
      else case json_loads lib s of Some r \<Rightarrow> r | None \<Rightarrow> PDict [])"
  by (simp add: decode_passthrough_def decode_b64_json_def global_name_def module_names_def
        bnd_def)

text \<open>
  Claim C4, evaluated. The module never imports \<^verbatim>\<open>base64\<close>, so the base64 branch of
  \<^verbatim>\<open>_decode_passthrough\<close> ends in a \<^verbatim>\<open>NameError\<close> that its \<^verbatim>\<open>except\<close> swallows, and the
  token goes to \<^verbatim>\<open>json.loads\<close> undecoded. With a library that decodes the base64 text of
  \<^verbatim>\<open>{"uid": "u1"}\<close> and parses that JSON text, the function still returns the empty
  mapping for the token, not the mapping that was encoded.
\<close>

theorem decode_passthrough_loses_base64:
  \<open>decode_passthrough
     \<lparr>json_loads = (\<lambda>s. if s = ''{"uid": "u1"}''
                          then Some (PDict [(''uid'', PStr ''u1'')]) else None),
      b64decode = (\<lambda>s. if s = ''eyJ1aWQiOiAidTEifQ=='' then Some ''{"uid": "u1"}'' else None),
      int_of_str = (\<lambda>s. None), fromisoformat = (\<lambda>s. None), isoformat = (\<lambda>t. [])\<rparr>
     (PStr ''eyJ1aWQiOiAidTEifQ=='') = PDict []\<close>
  by (simp add: decode_passthrough_str)

text \<open>
  Claim C8, evaluated. For a user on a paid plan whose balance is at most 0, a refresh
  request by user id raises \<^verbatim>\<open>NameError\<close> at \<^verbatim>\<open>now = datetime.utcnow()\<close>: the module binds
  \<^verbatim>\<open>_dt\<close>, never \<^verbatim>\<open>datetime\<close>. Nothing is stamped, nothing is refilled and no response is
  returned, whatever depletion time is stored.
\<close>

theorem refresh_credits_raises:
  assumes "http_method req = ''POST''" and "body req = Json (PDict [(''uid'', PStr uid)])"
    and "strip uid = uid" and "uid \<noteq> []"
    and "py_title (py_or (dget (doc_of us uid) ''subscriptionPlan'') (PStr [])) = Inr (PStr p)"
    and "p \<in> PAID_PLANS"
    and "py_int lib (py_or (dget (doc_of us uid) ''credits'') (PInt 0)) = Inr c"
    and "c \<le> 0"
  shows "refresh_credits lib now (Some us) req = Inl (NameError ''datetime'')"
  using assms
  by (simp add: refresh_credits_def refresh_updates_def bnd_def dget_def py_or_def
      global_name_def module_names_def)

theorem refresh_credits_raises_witness:
  "refresh_credits
     \<lparr>json_loads = (\<lambda>s. None), b64decode = (\<lambda>s. None), int_of_str = (\<lambda>s. None),
      fromisoformat = (\<lambda>s. None), isoformat = (\<lambda>t. [])\<rparr>
     0
     (Some [(''u1'', [(''subscriptionPlan'', PStr ''Pro''), (''subscriptionSelected'', PBool True),
                      (''credits'', PInt 0)])])
     \<lparr>http_method = ''POST'', body = Json (PDict [(''uid'', PStr ''u1'')])\<rparr>
   = Inl (NameError ''datetime'')"
proof -
  let ?us = "[(''u1'', [(''subscriptionPlan'', PStr ''Pro''),
                        (''subscriptionSelected'', PBool True), (''credits'', PInt 0)])]"
  let ?req = "\<lparr>http_method = ''POST'', body = Json (PDict [(''uid'', PStr ''u1'')])\<rparr>"
  let ?lib = "\<lparr>json_loads = (\<lambda>s. None), b64decode = (\<lambda>s. None), int_of_str = (\<lambda>s. None),
      fromisoformat = (\<lambda>s. None), isoformat = (\<lambda>t. [])\<rparr>"
  have 1: "http_method ?req = ''POST''" by simp
  have 2: "body ?req = Json (PDict [(''uid'', PStr ''u1'')])" by simp
  have 3: "strip ''u1'' = ''u1''" by (simp add: strip_def is_space_def)
  have 4: "''u1'' \<noteq> []" by simp
  have 5: "py_title (py_or (dget (doc_of ?us ''u1'') ''subscriptionPlan'') (PStr []))
             = Inr (PStr ''Pro'')"
    by (simp add: doc_of_def dget_def py_or_def title_def lowers_def uppers_def
          to_upper_def to_lower_def)
  have 6: "''Pro'' \<in> PAID_PLANS" by (simp add: PAID_PLANS_def)
  have 7: "py_int ?lib (py_or (dget (doc_of ?us ''u1'') ''credits'') (PInt 0)) = Inr 0"
    by (simp add: doc_of_def dget_def py_or_def)
  have 8: "(0::int) \<le> 0" by simp
  show ?thesis by (rule refresh_credits_raises[OF 1 2 3 4 5 6 7 8])
qed

section \<open>Properties of the completion calls\<close>

lemma call_openrouter_calls:
  "call_openrouter cfg ms mdl w = (c, m, e, w') \<Longrightarrow> calls w' = calls w @ [(ms, mdl)]"
  by (auto simp: call_openrouter_def Let_def split: if_splits)

text \<open>
  Claim C5. When the call with the primary model returns no content,
  \<^verbatim>\<open>generate_with_fallback\<close> makes one further call of \<^verbatim>\<open>call_openrouter\<close> and no other: the
  calls recorded are the primary one and then one with the fallback model and the same
  message list. When that call returns no content either, the result has no content and
  its error is the pair of the errors of the two calls; when it returns content, that
  content is the result, without error.
\<close>

theorem fallback_once:
  assumes p: "call_openrouter cfg ms (model_primary cfg) w = (c1, m1, e1, w1)"
    and f: "call_openrouter cfg ms (model_fallback cfg) w1 = (c2, m2, e2, w2)"
    and n: "\<not> has_content c1"
  shows "\<exists>c m e. generate_with_fallback cfg ms w = (c, m, e, w2)
           \<and> calls w2 = calls w @ [(ms, model_primary cfg), (ms, model_fallback cfg)]
           \<and> (\<not> has_content c2 \<longrightarrow> c = None \<and> m = m2 \<and> e = Some (Combined e1 e2))
           \<and> (has_content c2 \<longrightarrow> c = c2 \<and> m = m2 \<and> e = None)"
  using call_openrouter_calls[OF p] call_openrouter_calls[OF f] n
  by (simp add: generate_with_fallback_def p f)

theorem fallback_once_witness:
  "generate_with_fallback
     \<lparr>api_key = [107], model_primary = [112], model_fallback = [102], max_retries = 0,
      debug_mode = False\<rparr>
     [([117], [104, 105])]
     \<lparr>net = (\<lambda>n. Timeout), posted = 0, calls = []\<rparr>
   = (None, \<lparr>status = 0, tries = 1, model = [102]\<rparr>,
      Some (Combined (Some UPSTREAM_TIMEOUT) (Some UPSTREAM_TIMEOUT)),
      \<lparr>net = (\<lambda>n. Timeout), posted = 2,
       calls = [([([117], [104, 105])], [112]), ([([117], [104, 105])], [102])]\<rparr>)"
proof -
  let ?cfg = "\<lparr>api_key = [107], model_primary = [112], model_fallback = [102], max_retries = 0,
      debug_mode = False\<rparr>"
  let ?ms = "[([117::nat], [104, 105::nat])]"
  let ?w = "\<lparr>net = (\<lambda>n. Timeout), posted = 0, calls = []\<rparr>"
  let ?w1 = "\<lparr>net = (\<lambda>n. Timeout), posted = 1, calls = [(?ms, [112])]\<rparr>"
  let ?w2 = "\<lparr>net = (\<lambda>n. Timeout), posted = 2, calls = [(?ms, [112]), (?ms, [102])]\<rparr>"
  have p: "call_openrouter ?cfg ?ms (model_primary ?cfg) ?w
             = (None, \<lparr>status = 0, tries = 1, model = [112]\<rparr>, Some UPSTREAM_TIMEOUT, ?w1)"
    by (simp add: call_openrouter_def)
  have f: "call_openrouter ?cfg ?ms (model_fallback ?cfg) ?w1
             = (None, \<lparr>status = 0, tries = 1, model = [102]\<rparr>, Some UPSTREAM_TIMEOUT, ?w2)"
    by (simp add: call_openrouter_def)
  have n: "\<not> has_content None" by (simp add: has_content_def)
  from fallback_once[OF p f n] show ?thesis by (auto simp: has_content_def)
qed

section \<open>Properties of the tightening functions\<close>

lemma split_from_length:
  "length (split_from cur s) =
     length (split_from [] s) + (if cur \<noteq> [] \<and> (s = [] \<or> is_ws (hd s)) then 1 else 0)"
proof (induction s arbitrary: cur)
  case Nil
  then show ?case by simp
next
  case (Cons c cs)
  show ?case
  proof (cases "is_ws c")
    case True
    then show ?thesis by simp
  next
    case False
    have "length (split_from (cur @ [c]) cs) = length (split_from [c] cs)"
      using Cons[of "cur @ [c]"] Cons[of "[c]"] by simp
    with False show ?thesis by simp
  qed
qed

















lemma first_sentence_returns:
  "(\<exists>t. first_sentence_or_line s = Inr t) \<longleftrightarrow> s \<noteq> []"
  by (auto simp: first_sentence_or_line_def first_line_def bnd_def split: option.splits)

text \<open>\<^verbatim>\<open>_tighten_hook\<close> and \<^verbatim>\<open>_tighten_cta\<close> return exactly when the cleaned text is not empty;
  on an empty one \<^verbatim>\<open>splitlines()[0]\<close> raises \<^verbatim>\<open>IndexError\<close>. \<^verbatim>\<open>_tighten_body\<close> always
  returns.\<close>

lemma tighten_hook_returns:
  "(\<exists>h. tighten_hook re raw = Inr h) \<longleftrightarrow>
     strip_md_noise (extract_after_label re raw (T ''Hook'')) \<noteq> []"
  using first_sentence_returns[of "strip_md_noise (extract_after_label re raw (T ''Hook''))"]
  by (auto simp: tighten_hook_def bnd_def split: sum.splits)


lemmas tighten_eval = tighten_hook_def tighten_body_def tighten_cta_def
  extract_after_label_def strip_md_noise_def ustrip_def first_sentence_or_line_def
  first_line_def bnd_def is_ws_def is_linebreak_def MD_NOISE_def BULLETS_def PUNCT_def
  cap_words_def split_def ensure_end_punct_def search_end_punct_def CAP_TRAIL_def rstrip_in_def


section \<open>Properties of the review generation\<close>

lemma single_shot_is_path: "single_shot_path (fst (single_shot cfg re pr up w))"
  by (simp add: single_shot_def split: prod.splits)

text \<open>
  Claim C6. For a request on the Premium path: when the generation of the Hook returns
  no content, the response is that of the one-shot path, run from the state the failed
  generation left; likewise when the Hook was generated and tightened and the generation
  of the Body returns no content; and likewise when Hook and Body were produced and the
  generation of the CTA returns no content. A response of the one-shot path has mode
  \<^verbatim>\<open>single_shot\<close> (status 200) or is the upstream failure (status 502); it never has mode
  \<^verbatim>\<open>premium_stepwise\<close>.
\<close>

theorem stepwise_failure_single_shot:
  "(generate_with_fallback cfg (hook_msgs pr up) w = (c, m, e, w1) \<and> \<not> has_content c \<longrightarrow>
      generate_review cfg re pr ''Premium'' up w = Inr (single_shot cfg re pr up w1))
   \<and> (generate_with_fallback cfg (hook_msgs pr up) w = (c, m, e, w1) \<and> has_content c \<and>
      hook_text cfg re pr up (text_of c) w1 = Inr (hook, w2) \<and>
      generate_with_fallback cfg (body_msgs pr up hook) w2 = (cb, mb, eb, w3) \<and>
      \<not> has_content cb \<longrightarrow>
      generate_review cfg re pr ''Premium'' up w = Inr (single_shot cfg re pr up w3))
   \<and> (generate_with_fallback cfg (hook_msgs pr up) w = (c, m, e, w1) \<and> has_content c \<and>
      hook_text cfg re pr up (text_of c) w1 = Inr (hook, w2) \<and>
      generate_with_fallback cfg (body_msgs pr up hook) w2 = (cb, mb, eb, w3) \<and>
      has_content cb \<and>
      body_text cfg re pr up (text_of cb) w3 = (body_txt, w4) \<and>
      generate_with_fallback cfg (cta_msgs pr up body_txt) w4 = (cc, mc, ec, w5) \<and>
      \<not> has_content cc \<longrightarrow>
      generate_review cfg re pr ''Premium'' up w = Inr (single_shot cfg re pr up w5))
   \<and> single_shot_path (fst (single_shot cfg re pr up w'))"
  by (simp add: generate_review_def bnd_def single_shot_is_path)

lemmas completion_eval = call_openrouter_def generate_with_fallback_def has_content_def

theorem stepwise_failure_single_shot_witness:
  "generate_review
     \<lparr>api_key = [107], model_primary = [112], model_fallback = [102], max_retries = 0,
      debug_mode = False\<rparr>
     \<lparr>search_label = (\<lambda>l t. None), sub_undefined = (\<lambda>t. t), sub_labels = (\<lambda>t. t),
      YOU_RE = (\<lambda>t. False), GENERIC_Q_RE = (\<lambda>t. False), ACTION_VERBS_RE = (\<lambda>t. False)\<rparr>
     \<lparr>SYSTEM_PROMPT = [115], HOOK_SYSTEM_PROMPT = [104], BODY_SYSTEM_PROMPT = [98],
      CTA_SYSTEM_PROMPT = [99], REFORGE_HOOK_SYSTEM_PROMPT = [], REFORGE_BODY_SYSTEM_PROMPT = [],
      REFORGE_CTA_SYSTEM_PROMPT = []\<rparr>
     ''Premium'' [120]
     \<lparr>net = (\<lambda>n. Timeout), posted = 0, calls = []\<rparr>
   = Inr (Failed502 \<lparr>status = 0, tries = 1, model = [102]\<rparr> None,
          \<lparr>net = (\<lambda>n. Timeout), posted = 4,
           calls = [(msgs [104] [120], [112]), (msgs [104] [120], [102]),
                    (msgs [115] [120], [112]), (msgs [115] [120], [102])]\<rparr>)
   \<and> (\<exists>r w'. generate_review
     \<lparr>api_key = [107], model_primary = [112], model_fallback = [102], max_retries = 0,
      debug_mode = False\<rparr>
     \<lparr>search_label = (\<lambda>l t. None), sub_undefined = (\<lambda>t. t), sub_labels = (\<lambda>t. t),
      YOU_RE = (\<lambda>t. False), GENERIC_Q_RE = (\<lambda>t. False), ACTION_VERBS_RE = (\<lambda>t. False)\<rparr>
     \<lparr>SYSTEM_PROMPT = [115], HOOK_SYSTEM_PROMPT = [104], BODY_SYSTEM_PROMPT = [98],
      CTA_SYSTEM_PROMPT = [99], REFORGE_HOOK_SYSTEM_PROMPT = [], REFORGE_BODY_SYSTEM_PROMPT = [],
      REFORGE_CTA_SYSTEM_PROMPT = []\<rparr>
     ''Premium'' [120]
     \<lparr>net = (\<lambda>n. if n = 0 then Reply 200 (Some [71, 111, 46]) else Timeout),
      posted = 0, calls = []\<rparr> = Inr (r, w') \<and> single_shot_path r \<and> posted w' = 7)
   \<and> (\<exists>r w'. generate_review
     \<lparr>api_key = [107], model_primary = [112], model_fallback = [102], max_retries = 0,
      debug_mode = False\<rparr>
     \<lparr>search_label = (\<lambda>l t. None), sub_undefined = (\<lambda>t. t), sub_labels = (\<lambda>t. t),
      YOU_RE = (\<lambda>t. False), GENERIC_Q_RE = (\<lambda>t. False), ACTION_VERBS_RE = (\<lambda>t. False)\<rparr>
     \<lparr>SYSTEM_PROMPT = [115], HOOK_SYSTEM_PROMPT = [104], BODY_SYSTEM_PROMPT = [98],
      CTA_SYSTEM_PROMPT = [99], REFORGE_HOOK_SYSTEM_PROMPT = [], REFORGE_BODY_SYSTEM_PROMPT = [],
      REFORGE_CTA_SYSTEM_PROMPT = []\<rparr>
     ''Premium'' [120]
     \<lparr>net = (\<lambda>n. if n = 0 then Reply 200 (Some [71, 111, 46])
                 else if n = 3 then Reply 200 (Some [68, 111, 32, 105, 116]) else Timeout),
      posted = 0, calls = []\<rparr> = Inr (r, w') \<and> single_shot_path r \<and> posted w' = 10)"
proof -
  let ?cfg = "\<lparr>api_key = [107], model_primary = [112], model_fallback = [102], max_retries = 0,
      debug_mode = False\<rparr>"
  let ?re = "\<lparr>search_label = (\<lambda>l t. None), sub_undefined = (\<lambda>t. t), sub_labels = (\<lambda>t. t),
      YOU_RE = (\<lambda>t. False), GENERIC_Q_RE = (\<lambda>t. False), ACTION_VERBS_RE = (\<lambda>t. False)\<rparr>"
  let ?pr = "\<lparr>SYSTEM_PROMPT = [115], HOOK_SYSTEM_PROMPT = [104], BODY_SYSTEM_PROMPT = [98],
      CTA_SYSTEM_PROMPT = [99], REFORGE_HOOK_SYSTEM_PROMPT = [], REFORGE_BODY_SYSTEM_PROMPT = [],
      REFORGE_CTA_SYSTEM_PROMPT = []\<rparr>"
  let ?up = "[120::nat]"
  let ?h = "[71, 111, 46::nat]"
  let ?b = "[68, 111, 32, 105, 116, 46::nat]"
  let ?m0 = "\<lparr>status = 0, tries = 1, model = [102]\<rparr>"
  let ?m1 = "\<lparr>status = 200, tries = 1, model = [112]\<rparr>"
  let ?e = "Some (Combined (Some UPSTREAM_TIMEOUT) (Some UPSTREAM_TIMEOUT))"
  have th: "tighten_hook ?re ?h = Inr ?h" by (simp add: tighten_eval)
  have tb: "tighten_body ?re [68, 111, 32, 105, 116] = ?b" by (simp add: tighten_eval)
  let ?nA = "\<lambda>n::nat. Timeout"
  let ?A1 = "\<lparr>net = ?nA, posted = 2,
             calls = [(hook_msgs ?pr ?up, [112]), (hook_msgs ?pr ?up, [102])]\<rparr>"
  have A: "generate_with_fallback ?cfg (hook_msgs ?pr ?up) \<lparr>net = ?nA, posted = 0, calls = []\<rparr>
            = (None, ?m0, ?e, ?A1)"
    by (simp add: completion_eval)
  have "generate_review ?cfg ?re ?pr ''Premium'' ?up \<lparr>net = ?nA, posted = 0, calls = []\<rparr>
          = Inr (single_shot ?cfg ?re ?pr ?up ?A1)"
    using stepwise_failure_single_shot[where cfg = ?cfg and re = ?re and pr = ?pr and up = ?up
        and w = "\<lparr>net = ?nA, posted = 0, calls = []\<rparr>" and c = None and m = ?m0 and e = ?e
        and ?w1.0 = ?A1] A
    by (simp add: has_content_def)
  then have 1: "generate_review ?cfg ?re ?pr ''Premium'' ?up \<lparr>net = ?nA, posted = 0, calls = []\<rparr>
      = Inr (Failed502 ?m0 None,
          \<lparr>net = ?nA, posted = 4,
           calls = [(msgs [104] [120], [112]), (msgs [104] [120], [102]),
                    (msgs [115] [120], [112]), (msgs [115] [120], [102])]\<rparr>)"
    by (simp add: single_shot_def completion_eval hook_msgs_def)
  let ?nB = "\<lambda>n::nat. if n = 0 then Reply 200 (Some ?h) else Timeout"
  let ?B0 = "\<lparr>net = ?nB, posted = 0, calls = []\<rparr>"
  let ?B1 = "\<lparr>net = ?nB, posted = 1, calls = [(hook_msgs ?pr ?up, [112])]\<rparr>"
  let ?B2 = "\<lparr>net = ?nB, posted = 3,
             calls = [(hook_msgs ?pr ?up, [112]), (reforge_hook_msgs ?pr ?up ?h, [112]),
                      (reforge_hook_msgs ?pr ?up ?h, [102])]\<rparr>"
  let ?B3 = "\<lparr>net = ?nB, posted = 5,
             calls = [(hook_msgs ?pr ?up, [112]), (reforge_hook_msgs ?pr ?up ?h, [112]),
                      (reforge_hook_msgs ?pr ?up ?h, [102]),
                      (body_msgs ?pr ?up ?h, [112]), (body_msgs ?pr ?up ?h, [102])]\<rparr>"
  have B1: "generate_with_fallback ?cfg (hook_msgs ?pr ?up) ?B0 = (Some ?h, ?m1, None, ?B1)"
    by (simp add: completion_eval)
  have B2: "hook_text ?cfg ?re ?pr ?up (text_of (Some ?h)) ?B1 = Inr (?h, ?B2)"
    by (simp add: hook_text_def text_of_def th bnd_def hook_needs_reforge_def completion_eval)
  have B3: "generate_with_fallback ?cfg (body_msgs ?pr ?up ?h) ?B2 = (None, ?m0, ?e, ?B3)"
    by (simp add: completion_eval)
  have "generate_review ?cfg ?re ?pr ''Premium'' ?up ?B0 = Inr (single_shot ?cfg ?re ?pr ?up ?B3)"
    using stepwise_failure_single_shot[where cfg = ?cfg and re = ?re and pr = ?pr and up = ?up
        and w = ?B0 and c = "Some ?h" and m = ?m1 and e = None and ?w1.0 = ?B1
        and hook = ?h and ?w2.0 = ?B2 and cb = None and mb = ?m0 and eb = ?e and ?w3.0 = ?B3]
      B1 B2 B3
    by (simp add: has_content_def)
  moreover have "single_shot_path (fst (single_shot ?cfg ?re ?pr ?up ?B3))"
    using stepwise_failure_single_shot[where cfg = ?cfg and re = ?re and pr = ?pr and up = ?up
        and w' = ?B3] by blast
  moreover have "posted (snd (single_shot ?cfg ?re ?pr ?up ?B3)) = 7"
    by (simp add: single_shot_def completion_eval)
  ultimately have 2: "\<exists>r w'. generate_review ?cfg ?re ?pr ''Premium'' ?up ?B0 = Inr (r, w')
      \<and> single_shot_path r \<and> posted w' = 7"
    by (cases "single_shot ?cfg ?re ?pr ?up ?B3") auto
  let ?nC = "\<lambda>n::nat. if n = 0 then Reply 200 (Some ?h)
                 else if n = 3 then Reply 200 (Some [68, 111, 32, 105, 116]) else Timeout"
  let ?C0 = "\<lparr>net = ?nC, posted = 0, calls = []\<rparr>"
  let ?C1 = "\<lparr>net = ?nC, posted = 1, calls = [(hook_msgs ?pr ?up, [112])]\<rparr>"
  let ?C2 = "\<lparr>net = ?nC, posted = 3,
             calls = [(hook_msgs ?pr ?up, [112]), (reforge_hook_msgs ?pr ?up ?h, [112]),
                      (reforge_hook_msgs ?pr ?up ?h, [102])]\<rparr>"
  let ?C3 = "\<lparr>net = ?nC, posted = 4,
             calls = [(hook_msgs ?pr ?up, [112]), (reforge_hook_msgs ?pr ?up ?h, [112]),
                      (reforge_hook_msgs ?pr ?up ?h, [102]), (body_msgs ?pr ?up ?h, [112])]\<rparr>"
  let ?C4 = "\<lparr>net = ?nC, posted = 6,
             calls = [(hook_msgs ?pr ?up, [112]), (reforge_hook_msgs ?pr ?up ?h, [112]),
                      (reforge_hook_msgs ?pr ?up ?h, [102]), (body_msgs ?pr ?up ?h, [112]),
                      (reforge_body_msgs ?pr ?up ?b, [112]),
                      (reforge_body_msgs ?pr ?up ?b, [102])]\<rparr>"
  let ?C5 = "\<lparr>net = ?nC, posted = 8,
             calls = [(hook_msgs ?pr ?up, [112]), (reforge_hook_msgs ?pr ?up ?h, [112]),
                      (reforge_hook_msgs ?pr ?up ?h, [102]), (body_msgs ?pr ?up ?h, [112]),
                      (reforge_body_msgs ?pr ?up ?b, [112]),
                      (reforge_body_msgs ?pr ?up ?b, [102]),
                      (cta_msgs ?pr ?up ?b, [112]), (cta_msgs ?pr ?up ?b, [102])]\<rparr>"
  have C1: "generate_with_fallback ?cfg (hook_msgs ?pr ?up) ?C0 = (Some ?h, ?m1, None, ?C1)"
    by (simp add: completion_eval)
  have C2: "hook_text ?cfg ?re ?pr ?up (text_of (Some ?h)) ?C1 = Inr (?h, ?C2)"
    by (simp add: hook_text_def text_of_def th bnd_def hook_needs_reforge_def completion_eval)
  have C3: "generate_with_fallback ?cfg (body_msgs ?pr ?up ?h) ?C2
              = (Some [68, 111, 32, 105, 116], ?m1, None, ?C3)"
    by (simp add: completion_eval)
  have C4: "body_text ?cfg ?re ?pr ?up (text_of (Some [68, 111, 32, 105, 116])) ?C3 = (?b, ?C4)"
    by (simp add: body_text_def text_of_def tb body_needs_reforge_def completion_eval)
  have C5: "generate_with_fallback ?cfg (cta_msgs ?pr ?up ?b) ?C4 = (None, ?m0, ?e, ?C5)"
    by (simp add: completion_eval)
  have "generate_review ?cfg ?re ?pr ''Premium'' ?up ?C0 = Inr (single_shot ?cfg ?re ?pr ?up ?C5)"
    using stepwise_failure_single_shot[where cfg = ?cfg and re = ?re and pr = ?pr and up = ?up
        and w = ?C0 and c = "Some ?h" and m = ?m1 and e = None and ?w1.0 = ?C1
        and hook = ?h and ?w2.0 = ?C2 and cb = "Some [68, 111, 32, 105, 116]" and mb = ?m1
        and eb = None and ?w3.0 = ?C3 and body_txt = ?b and ?w4.0 = ?C4
        and cc = None and mc = ?m0 and ec = ?e and ?w5.0 = ?C5]
      C1 C2 C3 C4 C5
    by (simp add: has_content_def)
  moreover have "single_shot_path (fst (single_shot ?cfg ?re ?pr ?up ?C5))"
    using stepwise_failure_single_shot[where cfg = ?cfg and re = ?re and pr = ?pr and up = ?up
        and w' = ?C5] by blast
  moreover have "posted (snd (single_shot ?cfg ?re ?pr ?up ?C5)) = 10"
    by (simp add: single_shot_def completion_eval)
  ultimately have 3: "\<exists>r w'. generate_review ?cfg ?re ?pr ''Premium'' ?up ?C0 = Inr (r, w')
      \<and> single_shot_path r \<and> posted w' = 10"
    by (cases "single_shot ?cfg ?re ?pr ?up ?C5") auto
  from 1 2 3 show ?thesis by blast
qed

end
